theory Spec2Isabelle
  imports Main
begin

section \<open>JavaScript values, objects and stanzas\<close>

text \<open>
  The plugin code of \<^verbatim>\<open>src/headless/plugins/muc/utils.js\<close> works on settings values,
  Backbone model attributes and XML stanzas. A settings value or an attribute is a
  JavaScript value; numbers are restricted to the integers, which is all the code under
  study ever inspects (truthiness and the \<^verbatim>\<open>typeof\<close> of a value).
\<close>

datatype js_value =
    JUndefined
  | JNull
  | JBool bool
  | JNum int
  | JStr string
  | JArr "js_value list"
  | JObj "(string \<times> js_value) list"

type_synonym attrs = "(string \<times> js_value) list"

text \<open>JavaScript's ToBoolean: what \<^verbatim>\<open>if (v)\<close>, \<^verbatim>\<open>!v\<close> and \<^verbatim>\<open>v ? a : b\<close> test.\<close>

fun truthy :: "js_value \<Rightarrow> bool" where
  "truthy JUndefined = False"
| "truthy JNull = False"
| "truthy (JBool b) = b"
| "truthy (JNum n) = (n \<noteq> 0)"
| "truthy (JStr s) = (s \<noteq> [])"
| "truthy (JArr xs) = True"
| "truthy (JObj kvs) = True"

text \<open>
  An object is an ordered list of its own properties. Reading a property that is not
  there gives \<^verbatim>\<open>undefined\<close>; writing keeps the position of a property already there
  and appends a new one. Backbone's \<^verbatim>\<open>model.get(k)\<close> and \<^verbatim>\<open>model.save(attrs)\<close> are these
  two operations on the model's attributes.
\<close>

definition obj_get :: "string \<Rightarrow> attrs \<Rightarrow> js_value" where
  "obj_get k obj = (case map_of obj k of None \<Rightarrow> JUndefined | Some v \<Rightarrow> v)"

fun obj_set :: "string \<Rightarrow> js_value \<Rightarrow> attrs \<Rightarrow> attrs" where
  "obj_set k v [] = [(k, v)]"
| "obj_set k v ((k', v') # rest) =
     (if k = k' then (k, v) # rest else (k', v') # obj_set k v rest)"

fun obj_assign :: "attrs \<Rightarrow> attrs \<Rightarrow> attrs" where
  "obj_assign target [] = target"
| "obj_assign target ((k, v) # rest) = obj_assign (obj_set k v target) rest"

text \<open>
  A stanza is an XML element: a tag, its attributes and its child elements (text nodes
  play no part in this module). \<^verbatim>\<open>getAttribute\<close> answers \<^verbatim>\<open>null\<close> for a missing attribute.
\<close>

datatype xml = Element (tag: string) (xattrs: "(string \<times> string) list") (children: "xml list")

definition getAttribute :: "xml \<Rightarrow> string \<Rightarrow> string option" where
  "getAttribute e k = map_of (xattrs e) k"

definition js_of_attr :: "string option \<Rightarrow> js_value" where
  "js_of_attr a = (case a of None \<Rightarrow> JNull | Some s \<Rightarrow> JStr s)"

text \<open>A template literal prints \<^verbatim>\<open>null\<close> as the text null.\<close>

definition template_str :: "string option \<Rightarrow> string" where
  "template_str a = (case a of None \<Rightarrow> ''null'' | Some s \<Rightarrow> s)"

fun descendants :: "xml \<Rightarrow> xml list" where
  "descendants (Element t as cs) = concat (map (\<lambda>c. c # descendants c) cs)"

text \<open>
  \<^verbatim>\<open>sizzle('name[xmlns="ns"]', stanza)\<close>: the descendants of the stanza, in document order,
  with that tag and that literal \<^verbatim>\<open>xmlns\<close> attribute. Both selectors of the module have
  this shape.
\<close>

definition sizzle :: "string \<Rightarrow> string \<Rightarrow> xml \<Rightarrow> xml list" where
  "sizzle name ns stanza =
     filter (\<lambda>e. tag e = name \<and> getAttribute e ''xmlns'' = Some ns) (descendants stanza)"

text \<open>
  Strophe's \<^verbatim>\<open>getBareJidFromJid(jid)\<close> is \<^verbatim>\<open>jid ? jid.split("/")[0] : null\<close>.
\<close>

definition getBareJidFromJid :: "string option \<Rightarrow> string option" where
  "getBareJidFromJid jid =
     (case jid of
        None \<Rightarrow> None
      | Some s \<Rightarrow> if s = [] then None else Some (takeWhile (\<lambda>c. c \<noteq> CHR ''/'') s))"

definition NS_PUBSUB :: string where
  "NS_PUBSUB = ''http://jabber.org/protocol/pubsub''"

definition NS_CONFERENCE :: string where
  "NS_CONFERENCE = ''jabber:x:conference''"


section \<open>The client's state\<close>

text \<open>
  \<^verbatim>\<open>CHATROOMS_TYPE\<close> is imported from the core and is not defined in the module; the
  comment above \<^verbatim>\<open>openChatRoom\<close> gives its value: the type is set to "chatroom".
\<close>

definition CHATROOMS_TYPE :: string where
  "CHATROOMS_TYPE = ''chatroom''"

text \<open>
  Modelled from the spec: \<^verbatim>\<open>converse.ROOMSTATUS\<close> is defined outside the module. The spec
  names the connection states disconnected, connecting and connected; each is the
  JavaScript value of that name.
\<close>

definition ROOMSTATUS_DISCONNECTED :: js_value where
  "ROOMSTATUS_DISCONNECTED = JStr ''disconnected''"

definition ROOMSTATUS_CONNECTING :: js_value where
  "ROOMSTATUS_CONNECTING = JStr ''connecting''"

definition ROOMSTATUS_CONNECTED :: js_value where
  "ROOMSTATUS_CONNECTED = JStr ''connected''"

text \<open>
  \<^verbatim>\<open>ROLES\<close> is imported from the plugin's index; the result type documented for
  \<^verbatim>\<open>getAssignableRoles\<close> lists its members in this order.
\<close>

definition ROLES :: "string list" where
  "ROLES = [''moderator'', ''participant'', ''visitor'']"

text \<open>
  A chat box is a Backbone model: its attributes (\<^verbatim>\<open>jid\<close>, \<^verbatim>\<open>id\<close>, \<^verbatim>\<open>type\<close>, \<^verbatim>\<open>password\<close>,
  ...), its \<^verbatim>\<open>session\<close> sub-model (\<^verbatim>\<open>connection_status\<close>) and its message log, each
  message being the attributes it was created with, in insertion order.
\<close>

record chatbox =
  attributes :: attrs
  session :: attrs
  messages :: "attrs list"

datatype js_error = TypeError string | Error string

datatype transport = Websocket | Bosh

text \<open>
  The text of an invitation prompt is built by the translation function \<^verbatim>\<open>__\<close> from a
  format and its arguments; the prompt is kept as those arguments (inviter, room JID and,
  in the second format, the reason).
\<close>

datatype prompt =
    InvitePrompt js_value js_value
  | InvitePromptReason js_value js_value js_value

datatype event =
    RoomsAutoJoined
  | MessageEvent xml attrs js_value

text \<open>
  What the module does to its collaborators is recorded, in order, in a trace: log
  lines, events fired through \<^verbatim>\<open>api.trigger\<close>, prompts shown by \<^verbatim>\<open>confirm\<close>, calls of
  \<^verbatim>\<open>api.rooms.open\<close> with their argument lists, calls of a room's \<^verbatim>\<open>maybeShow\<close> and
  \<^verbatim>\<open>rejoin\<close> (by the room's id), and promises that rejected with nobody awaiting them.
\<close>

datatype effect =
    LogWarn string
  | LogError string
  | Trigger event
  | Confirm prompt
  | RoomsOpen "js_value list"
  | MaybeShow js_value
  | Rejoin js_value
  | UnhandledRejection js_error

datatype handler_fn = DirectInvitationHandler | CheckIfMEP | GroupchatRouter

text \<open>A registration made with Strophe's \<^verbatim>\<open>addHandler(fn, ns, name, type)\<close>.\<close>

record handler_reg =
  h_fn :: handler_fn
  h_ns :: "string option"
  h_name :: "string option"
  h_type :: "string option"

datatype listener = UnloadListener

datatype continuation = ReplayStanza "string option" xml

record converse =
  settings :: attrs
  chatboxes :: "chatbox list"
  roster :: "(string \<times> string) list"
  bare_jid :: string
  xmppstatus :: "js_value option"
  connection_type :: transport
  converse_session :: attrs
  unloadevent :: string
  handlers :: "handler_reg list"
  window_listeners :: "(string \<times> listener) list"
  deferred :: "(string \<times> continuation) list"
  trace :: "effect list"

definition settings_get :: "converse \<Rightarrow> string \<Rightarrow> js_value" where
  "settings_get s k = obj_get k (settings s)"

definition emit :: "effect \<Rightarrow> converse \<Rightarrow> converse" where
  "emit e s = s\<lparr>trace := trace s @ [e]\<rparr>"


section \<open>Role assignment\<close>

text \<open>
  \<^verbatim>\<open>getAssignableRoles(occupant)\<close>. \<^verbatim>\<open>Array.prototype.includes\<close> compares with
  SameValueZero, which on a string key is equality with a string element.
\<close>

definition getAssignableRoles :: "converse \<Rightarrow> attrs \<Rightarrow> string list" where
  "getAssignableRoles s occupant =
     (let disabled0 = settings_get s ''modtools_disable_assign'';
          disabled = (case disabled0 of
                        JArr ds \<Rightarrow> ds
                      | _ \<Rightarrow> if truthy disabled0 then map JStr ROLES else [])
      in if obj_get ''role'' occupant = JStr ''moderator''
         then filter (\<lambda>r. JStr r \<notin> set disabled) ROLES
         else [])"


section \<open>The room directory\<close>

text \<open>
  Backbone's \<^verbatim>\<open>collection.get(id)\<close>: the model stored under that id, nothing for
  \<^verbatim>\<open>null\<close> or \<^verbatim>\<open>undefined\<close>.
\<close>

definition chatboxes_get :: "js_value \<Rightarrow> converse \<Rightarrow> chatbox option" where
  "chatboxes_get ident s =
     (if ident = JNull \<or> ident = JUndefined then None
      else find (\<lambda>c. obj_get ''id'' (attributes c) = ident) (chatboxes s))"

text \<open>Backbone's \<^verbatim>\<open>collection.where({jid: j})\<close>: the models whose \<^verbatim>\<open>jid\<close> is \<^verbatim>\<open>j\<close>.\<close>

definition chatboxes_where_jid :: "string \<Rightarrow> converse \<Rightarrow> chatbox list" where
  "chatboxes_where_jid j s = filter (\<lambda>c. obj_get ''jid'' (attributes c) = JStr j) (chatboxes s)"

text \<open>
  Backbone's \<^verbatim>\<open>messages.findWhere({msgid})\<close>: the first message that has a \<^verbatim>\<open>msgid\<close>
  attribute strictly equal to the given value.
\<close>

definition findWhere_msgid :: "js_value \<Rightarrow> attrs list \<Rightarrow> attrs option" where
  "findWhere_msgid msgid msgs = find (\<lambda>m. map_of m ''msgid'' = Some msgid) msgs"

fun update_first :: "('a \<Rightarrow> bool) \<Rightarrow> ('a \<Rightarrow> 'a) \<Rightarrow> 'a list \<Rightarrow> 'a list" where
  "update_first P f [] = []"
| "update_first P f (x # xs) = (if P x then f x # xs else x # update_first P f xs)"

text \<open>A method that mutates the room stored under an id mutates that entry of the directory.\<close>

definition update_room :: "js_value \<Rightarrow> (chatbox \<Rightarrow> chatbox) \<Rightarrow> converse \<Rightarrow> converse" where
  "update_room ident f s =
     s\<lparr>chatboxes := update_first (\<lambda>c. obj_get ''id'' (attributes c) = ident) f (chatboxes s)\<rparr>"

text \<open>
  Modelled from the spec: \<^verbatim>\<open>api.rooms.get(jid, settings, create)\<close> is defined outside the
  module. The spec's Room Directory: \<^verbatim>\<open>get(jid)\<close> gives the Room or absent;
  \<^verbatim>\<open>getOrCreate(jid, settings)\<close> returns the existing Room or constructs one with
  type=groupchat and id=jid, and merges the caller-supplied settings; a Room's session
  is \<^verbatim>\<open>disconnected\<close> on creation. The module calls the one function with one argument to
  look a room up, and with settings and \<^verbatim>\<open>true\<close> to get or create it.
\<close>

definition rooms_get :: "js_value \<Rightarrow> attrs \<Rightarrow> bool \<Rightarrow> converse \<Rightarrow> chatbox option \<times> converse" where
  "rooms_get jid room_settings create s =
     (case chatboxes_get jid s of
        Some room \<Rightarrow>
          (let room' = room\<lparr>attributes := obj_assign (attributes room) room_settings\<rparr>
           in (Some room', update_room jid (\<lambda>_. room') s))
      | None \<Rightarrow>
          if create then
            (let room = \<lparr>attributes =
                           obj_assign [(''jid'', jid), (''id'', jid), (''type'', JStr CHATROOMS_TYPE)]
                             room_settings,
                         session = [(''connection_status'', ROOMSTATUS_DISCONNECTED)],
                         messages = []\<rparr>
             in (Some room, s\<lparr>chatboxes := chatboxes s @ [room]\<rparr>))
          else (None, s))"

text \<open>
  Modelled from the spec: \<^verbatim>\<open>room.createMessage(attrs)\<close> is a method of the room model,
  defined outside the module; the spec: create a Message, appended to the room's
  insertion-ordered log.
\<close>

definition createMessage :: "js_value \<Rightarrow> attrs \<Rightarrow> converse \<Rightarrow> converse" where
  "createMessage room_id msg s = update_room room_id (\<lambda>r. r\<lparr>messages := messages r @ [msg]\<rparr>) s"

text \<open>
  Modelled from the spec: \<^verbatim>\<open>u.isSameBareJID\<close> is defined outside the module; the spec: a
  stanza is self-authored when its from is the local bare JID.
\<close>

definition isSameBareJID :: "string option \<Rightarrow> string \<Rightarrow> bool" where
  "isSameBareJID jid1 jid2 =
     (case jid1 of
        None \<Rightarrow> False
      | Some j \<Rightarrow> getBareJidFromJid (Some j) = getBareJidFromJid (Some jid2))"

text \<open>
  The roster maps a contact's JID to the name its \<^verbatim>\<open>getDisplayName()\<close> answers;
  \<^verbatim>\<open>roster.get(null)\<close> finds nothing.
\<close>

definition roster_get :: "string option \<Rightarrow> converse \<Rightarrow> string option" where
  "roster_get jid s = (case jid of None \<Rightarrow> None | Some j \<Rightarrow> map_of (roster s) j)"


section \<open>Disconnecting the rooms when the page unloads\<close>

text \<open>\<^verbatim>\<open>disconnectChatRooms()\<close>: filter by type, then save the status into each session.\<close>

definition disconnectChatRooms :: "converse \<Rightarrow> converse" where
  "disconnectChatRooms s =
     s\<lparr>chatboxes :=
         map (\<lambda>m. if obj_get ''type'' (attributes m) = JStr CHATROOMS_TYPE
                  then m\<lparr>session := obj_set ''connection_status'' ROOMSTATUS_DISCONNECTED (session m)\<rparr>
                  else m)
           (chatboxes s)\<rparr>"

text \<open>
  Modelled from the spec: \<^verbatim>\<open>api.connection.isType(name)\<close> is the transport's predicate,
  defined outside the module.
\<close>

definition connection_isType :: "converse \<Rightarrow> string \<Rightarrow> bool" where
  "connection_isType s name =
     (name = ''websocket'' \<and> connection_type s = Websocket \<or>
      name = ''bosh'' \<and> connection_type s = Bosh)"

text \<open>The listener that \<^verbatim>\<open>onStatusInitialized()\<close> registers for the unload event.\<close>

definition unloadListener :: "converse \<Rightarrow> converse" where
  "unloadListener s =
     (let using_websocket = connection_isType s ''websocket'' in
      if using_websocket \<and>
         (\<not> truthy (settings_get s ''enable_smacks'') \<or>
          \<not> truthy (obj_get ''smacks_stream_id'' (converse_session s)))
      then disconnectChatRooms s
      else s)"

definition onStatusInitialized :: "converse \<Rightarrow> converse" where
  "onStatusInitialized s =
     s\<lparr>window_listeners := window_listeners s @ [(unloadevent s, UnloadListener)]\<rparr>"

fun run_listener :: "listener \<Rightarrow> converse \<Rightarrow> converse" where
  "run_listener UnloadListener s = unloadListener s"

text \<open>The browser firing an event on the window: every listener of that event runs, in order.\<close>

definition dispatchEvent :: "string \<Rightarrow> converse \<Rightarrow> converse" where
  "dispatchEvent name s =
     fold (\<lambda>(n, l) st. if n = name then run_listener l st else st) (window_listeners s) s"


section \<open>Opening rooms and direct invitations\<close>

text \<open>
  \<^verbatim>\<open>openChatRoom(jid, settings)\<close>. The settings object is the caller's: the two
  assignments change it in place, so the function also hands back the object as it is
  after the call. The result is the promise's outcome: the room, or the error it
  rejected with.
\<close>

definition openChatRoom :: "js_value \<Rightarrow> attrs \<Rightarrow> converse \<Rightarrow> (js_error + chatbox) \<times> attrs \<times> converse" where
  "openChatRoom jid settings0 s =
     (let settings1 = obj_set ''type'' (JStr CHATROOMS_TYPE) settings0;
          settings2 = obj_set ''id'' jid settings1
      in case rooms_get jid settings2 True s of
           (None, s1) \<Rightarrow> (Inl (TypeError ''chatbox is null''), settings2, s1)
         | (Some chatbox, s1) \<Rightarrow>
             (Inr chatbox, settings2, emit (MaybeShow (obj_get ''id'' (attributes chatbox))) s1))"

text \<open>
  The prompt of \<^verbatim>\<open>onDirectMUCInvitation\<close>, shown when invitations are not accepted
  automatically: the inviter is the roster contact's display name, or else the bare JID
  the invitation came from; the reason is added when there is one.
\<close>

definition invitation_prompt :: "xml \<Rightarrow> xml \<Rightarrow> converse \<Rightarrow> prompt" where
  "invitation_prompt message x_el s =
     (let from = getBareJidFromJid (getAttribute message ''from'');
          room_jid = js_of_attr (getAttribute x_el ''jid'');
          reason = js_of_attr (getAttribute x_el ''reason'');
          contact = (case roster_get from s of
                       Some name \<Rightarrow> JStr name
                     | None \<Rightarrow> js_of_attr from)
      in if \<not> truthy reason then InvitePrompt contact room_jid
         else InvitePromptReason contact room_jid reason)"

text \<open>
  \<^verbatim>\<open>onDirectMUCInvitation(message)\<close>. The answer the user gives to a prompt is a
  parameter. The function is \<^verbatim>\<open>async\<close>: an exception in its body is the rejection of the
  promise it returns.
\<close>

definition onDirectMUCInvitation :: "(prompt \<Rightarrow> bool) \<Rightarrow> xml \<Rightarrow> converse \<Rightarrow> (js_error + unit) \<times> converse" where
  "onDirectMUCInvitation confirm message s =
     (case rev (sizzle ''x'' NS_CONFERENCE message) of
        [] \<Rightarrow> (Inl (TypeError ''x_el is undefined''), s)
      | x_el # _ \<Rightarrow>
          (let room_jid = js_of_attr (getAttribute x_el ''jid'');
               (result, s1) =
                 (if truthy (settings_get s ''auto_join_on_invite'') then (True, s)
                  else
                    (let p = invitation_prompt message x_el s
                     in (confirm p, emit (Confirm p) s)))
           in if result then
                (case openChatRoom room_jid
                        [(''password'', js_of_attr (getAttribute x_el ''password''))] s1 of
                   (Inl e, _, s2) \<Rightarrow> (Inl e, s2)
                 | (Inr chatroom, _, s2) \<Rightarrow>
                     if obj_get ''connection_status'' (session chatroom) = ROOMSTATUS_DISCONNECTED
                     then (case chatboxes_get room_jid s2 of
                             None \<Rightarrow> (Inl (TypeError ''chatboxes.get(room_jid) is undefined''), s2)
                           | Some c \<Rightarrow> (Inr (), emit (Rejoin room_jid) s2))
                     else (Inr (), s2))
              else (Inr (), s1)))"


section \<open>The default nickname\<close>

text \<open>Strophe's \<^verbatim>\<open>getNodeFromJid\<close>: the part before the first @, \<^verbatim>\<open>null\<close> without one.\<close>

definition getNodeFromJid :: "string \<Rightarrow> string option" where
  "getNodeFromJid jid =
     (if CHR ''@'' \<in> set jid then Some (takeWhile (\<lambda>c. c \<noteq> CHR ''@'') jid) else None)"

text \<open>
  \<^verbatim>\<open>getDefaultMUCNickname()\<close>. \<^verbatim>\<open>xmppstatus\<close> is \<^verbatim>\<open>None\<close> until the status model exists,
  and then holds what its \<^verbatim>\<open>getNickname()\<close> answers. Strophe's \<^verbatim>\<open>unescapeNode\<close> on a string
  is a parameter; on \<^verbatim>\<open>null\<close> it answers \<^verbatim>\<open>null\<close>. The function returns the state it was
  called in, which it only reads.
\<close>

definition nickname_too_early :: string where
  "nickname_too_early =
     ''Can'' @ [CHR 0x27] @
     ''t call _converse.getDefaultMUCNickname before the statusInitialized has been fired.''"

definition getDefaultMUCNickname :: "(string \<Rightarrow> string) \<Rightarrow> converse \<Rightarrow> (js_error + js_value) \<times> converse" where
  "getDefaultMUCNickname unescapeNode s =
     (case xmppstatus s of
        None \<Rightarrow> (Inl (Error nickname_too_early), s)
      | Some nick \<Rightarrow>
          if truthy nick then (Inr nick, s)
          else if truthy (settings_get s ''muc_nickname_from_jid'')
          then (Inr (case getNodeFromJid (bare_jid s) of
                       None \<Rightarrow> JNull
                     | Some node \<Rightarrow> JStr (unescapeNode node)), s)
          else (Inr JUndefined, s))"


section \<open>Joining the configured rooms\<close>

text \<open>How the promise of one \<^verbatim>\<open>api.rooms.open\<close> call ends.\<close>

datatype settle = Fulfils | Rejects js_error | Pending

fun is_reject :: "settle \<Rightarrow> bool" where
  "is_reject (Rejects e) = True"
| "is_reject _ = False"

text \<open>lodash's \<^verbatim>\<open>isObject\<close>: arrays and objects, not \<^verbatim>\<open>null\<close>, not a primitive.\<close>

fun isObject :: "js_value \<Rightarrow> bool" where
  "isObject (JArr xs) = True"
| "isObject (JObj kvs) = True"
| "isObject _ = False"

fun string_of_nat :: "nat \<Rightarrow> string" where
  "string_of_nat n =
     (if n < 10 then [char_of (48 + n)]
      else string_of_nat (n div 10) @ [char_of (48 + n mod 10)])"

text \<open>
  The own enumerable properties that \<^verbatim>\<open>muc.jid\<close> reads and \<^verbatim>\<open>{ ...muc }\<close> copies: an
  object's entries, an array's elements under their indices.
\<close>

fun own_props :: "js_value \<Rightarrow> attrs" where
  "own_props (JObj kvs) = kvs"
| "own_props (JArr xs) = zip (map string_of_nat [0..<length xs]) xs"
| "own_props _ = []"

definition invalid_muc_msg :: string where
  "invalid_muc_msg =
     ''Invalid muc criteria specified for '' @ [CHR 0x22] @ ''auto_join_rooms'' @ [CHR 0x22]"

text \<open>
  The callback that \<^verbatim>\<open>autoJoinRooms()\<close> maps over the setting: it answers a promise.
  \<^verbatim>\<open>api.rooms.open\<close> is asynchronous and defined outside the module: the call is
  recorded with its arguments, and how its promise ends is a parameter.
\<close>

definition autoJoinEntry :: "(js_value list \<Rightarrow> settle) \<Rightarrow> js_value \<Rightarrow> converse \<Rightarrow> settle \<times> converse" where
  "autoJoinEntry rooms_open muc s =
     (case muc of
        JStr jid \<Rightarrow>
          if chatboxes_where_jid jid s \<noteq> [] then (Fulfils, s)
          else (rooms_open [JStr jid], emit (RoomsOpen [JStr jid]) s)
      | _ \<Rightarrow>
          if isObject muc then
            (let args = [obj_get ''jid'' (own_props muc), JObj (own_props muc)]
             in (rooms_open args, emit (RoomsOpen args) s))
          else (Fulfils, emit (LogError invalid_muc_msg) s))"

fun mapEntries :: "(js_value list \<Rightarrow> settle) \<Rightarrow> js_value list \<Rightarrow> converse \<Rightarrow> settle list \<times> converse" where
  "mapEntries rooms_open [] s = ([], s)"
| "mapEntries rooms_open (muc # rest) s =
     (case autoJoinEntry rooms_open muc s of
        (p, s1) \<Rightarrow> (case mapEntries rooms_open rest s1 of (ps, s2) \<Rightarrow> (p # ps, s2)))"

text \<open>
  \<^verbatim>\<open>await Promise.all(promises)\<close>: rejects as soon as one promise rejects, goes on when
  all have fulfilled, and otherwise never returns.
\<close>

definition promise_all :: "settle list \<Rightarrow> settle" where
  "promise_all ps =
     (case find is_reject ps of
        Some r \<Rightarrow> r
      | None \<Rightarrow> if Pending \<in> set ps then Pending else Fulfils)"

definition autoJoinRooms :: "(js_value list \<Rightarrow> settle) \<Rightarrow> converse \<Rightarrow> settle \<times> converse" where
  "autoJoinRooms rooms_open s =
     (case settings_get s ''auto_join_rooms'' of
        JArr entries \<Rightarrow>
          (case mapEntries rooms_open entries s of
             (ps, s1) \<Rightarrow>
               (case promise_all ps of
                  Fulfils \<Rightarrow> (Fulfils, emit (Trigger RoomsAutoJoined) s1)
                | r \<Rightarrow> (r, s1)))
      | _ \<Rightarrow> (Rejects (TypeError ''auto_join_rooms has no map''), s))"


section \<open>Room notifications and the stanza handlers\<close>

fun createMessages :: "js_value \<Rightarrow> xml \<Rightarrow> attrs list \<Rightarrow> converse \<Rightarrow> converse" where
  "createMessages room_id stanza [] s = s"
| "createMessages room_id stanza (a # rest) s =
     createMessages room_id stanza rest
       (emit (Trigger (MessageEvent stanza a room_id)) (createMessage room_id a s))"

text \<open>
  \<^verbatim>\<open>handleMEPNotification(stanza)\<close>. The decoder \<^verbatim>\<open>getMEPActivities\<close> lives in the
  plugin's parsers, outside the module: it is a parameter, which answers the list of
  activity attributes or fails. The function is \<^verbatim>\<open>async\<close>: the result is the outcome of
  its promise, \<^verbatim>\<open>Inl\<close> the error it rejected with. Stanzas are handled one after the
  other, each to its end.
\<close>

definition handleMEPNotification :: "(xml \<Rightarrow> chatbox \<Rightarrow> js_error + attrs list) \<Rightarrow> xml \<Rightarrow> converse \<Rightarrow> (js_error + unit) \<times> converse" where
  "handleMEPNotification getMEPActivities stanza s =
     (let from = getAttribute stanza ''from'' in
      if isSameBareJID from (bare_jid s) then (Inr (), s)
      else
        (case rooms_get (js_of_attr from) [] False s of
           (None, s1) \<Rightarrow>
             (Inr (),
              emit (LogWarn (''Received a MEP message for a non-existent room: '' @ template_str from)) s1)
         | (Some room, s1) \<Rightarrow>
             (let msgid = js_of_attr (getAttribute stanza ''id'') in
              if findWhere_msgid msgid (messages room) \<noteq> None then (Inr (), s1)
              else
                (case getMEPActivities stanza room of
                   Inl e \<Rightarrow> (Inl e, s1)
                 | Inr activities \<Rightarrow>
                     (Inr (), createMessages (js_of_attr from) stanza activities s1)))))"

fun error_message :: "js_error \<Rightarrow> string" where
  "error_message (TypeError m) = m"
| "error_message (Error m) = m"

text \<open>
  Calling an \<^verbatim>\<open>async\<close> function without awaiting it: the call answers a promise and
  never throws; what the function does happens, and when its promise rejects, nobody
  handles the rejection.
\<close>

definition unawaited :: "(js_error + 'a) \<times> converse \<Rightarrow> converse" where
  "unawaited r =
     (case r of
        (Inl e, s1) \<Rightarrow> emit (UnhandledRejection e) s1
      | (Inr v, s1) \<Rightarrow> s1)"

text \<open>
  The \<^verbatim>\<open>try\<close> block of \<^verbatim>\<open>checkIfMEP(message)\<close>: the exception thrown inside it, if any,
  and the state it leaves. The selector query does not fail, and the call of
  \<^verbatim>\<open>handleMEPNotification\<close> is not awaited.
\<close>

definition checkIfMEP_try :: "(xml \<Rightarrow> chatbox \<Rightarrow> js_error + attrs list) \<Rightarrow> xml \<Rightarrow> converse \<Rightarrow> js_error option \<times> converse" where
  "checkIfMEP_try getMEPActivities message s =
     (if sizzle ''event'' (NS_PUBSUB @ ''#event'') message \<noteq> []
      then (None, unawaited (handleMEPNotification getMEPActivities message s))
      else (None, s))"

text \<open>
  \<^verbatim>\<open>checkIfMEP(message)\<close>: the handler's answer and the state after it. The \<^verbatim>\<open>catch\<close>
  clause logs the message of an exception thrown inside the \<^verbatim>\<open>try\<close> block.
\<close>

definition checkIfMEP :: "(xml \<Rightarrow> chatbox \<Rightarrow> js_error + attrs list) \<Rightarrow> xml \<Rightarrow> converse \<Rightarrow> bool \<times> converse" where
  "checkIfMEP getMEPActivities message s =
     (case checkIfMEP_try getMEPActivities message s of
        (Some e, s1) \<Rightarrow> (True, emit (LogError (error_message e)) s1)
      | (None, s1) \<Rightarrow> (True, s1))"

text \<open>
  The handler that \<^verbatim>\<open>registerDirectInvitationHandler()\<close> registers: it calls the
  \<^verbatim>\<open>async\<close> \<^verbatim>\<open>onDirectMUCInvitation\<close> without awaiting it and answers true.
\<close>

definition directInvitationHandler :: "(prompt \<Rightarrow> bool) \<Rightarrow> xml \<Rightarrow> converse \<Rightarrow> bool \<times> converse" where
  "directInvitationHandler confirm message s =
     (True, unawaited (onDirectMUCInvitation confirm message s))"

text \<open>
  The handler that \<^verbatim>\<open>onBeforeResourceBinding()\<close> registers: for a room not in the
  directory, it leaves a continuation with the \<^verbatim>\<open>chatBoxesFetched\<close> milestone.
\<close>

definition groupchatRouter :: "xml \<Rightarrow> converse \<Rightarrow> bool \<times> converse" where
  "groupchatRouter stanza s =
     (let muc_jid = getBareJidFromJid (getAttribute stanza ''from'') in
      if chatboxes_get (js_of_attr muc_jid) s = None
      then (True, s\<lparr>deferred := deferred s @ [(''chatBoxesFetched'', ReplayStanza muc_jid stanza)]\<rparr>)
      else (True, s))"

definition addHandler :: "handler_fn \<Rightarrow> string option \<Rightarrow> string option \<Rightarrow> string option \<Rightarrow> converse \<Rightarrow> converse" where
  "addHandler f ns name ty s =
     s\<lparr>handlers := handlers s @ [\<lparr>h_fn = f, h_ns = ns, h_name = name, h_type = ty\<rparr>]\<rparr>"

definition registerDirectInvitationHandler :: "converse \<Rightarrow> converse" where
  "registerDirectInvitationHandler s =
     addHandler DirectInvitationHandler (Some NS_CONFERENCE) (Some ''message'') None s"

definition registerPEPPushHandler :: "converse \<Rightarrow> converse" where
  "registerPEPPushHandler s =
     addHandler CheckIfMEP None (Some ''message'') (Some ''groupchat'')
       (addHandler CheckIfMEP None (Some ''message'') (Some ''headline'') s)"

definition onBeforeResourceBinding :: "converse \<Rightarrow> converse" where
  "onBeforeResourceBinding s =
     addHandler GroupchatRouter None (Some ''message'') (Some ''groupchat'') s"

text \<open>
  Strophe's handler match: the namespace is the stanza's own or a child's, the name is
  the stanza's tag, the type its \<^verbatim>\<open>type\<close> attribute; a criterion left \<^verbatim>\<open>null\<close> matches.
\<close>

definition handler_matches :: "handler_reg \<Rightarrow> xml \<Rightarrow> bool" where
  "handler_matches h stanza =
     ((case h_ns h of
         None \<Rightarrow> True
       | Some ns \<Rightarrow> getAttribute stanza ''xmlns'' = Some ns \<or>
                   list_ex (\<lambda>c. getAttribute c ''xmlns'' = Some ns) (children stanza)) \<and>
      (case h_name h of None \<Rightarrow> True | Some n \<Rightarrow> tag stanza = n) \<and>
      (case h_type h of None \<Rightarrow> True | Some ty \<Rightarrow> getAttribute stanza ''type'' = Some ty))"

fun run_handler :: "(xml \<Rightarrow> chatbox \<Rightarrow> js_error + attrs list) \<Rightarrow> (prompt \<Rightarrow> bool) \<Rightarrow> handler_fn \<Rightarrow> xml \<Rightarrow> converse \<Rightarrow> bool \<times> converse" where
  "run_handler dec confirm DirectInvitationHandler stanza s = directInvitationHandler confirm stanza s"
| "run_handler dec confirm CheckIfMEP stanza s = checkIfMEP dec stanza s"
| "run_handler dec confirm GroupchatRouter stanza s = groupchatRouter stanza s"

text \<open>
  Strophe delivering one stanza: each registered handler that matches runs, and stays
  registered only when it answers true.
\<close>

fun run_handlers :: "(xml \<Rightarrow> chatbox \<Rightarrow> js_error + attrs list) \<Rightarrow> (prompt \<Rightarrow> bool) \<Rightarrow> handler_reg list \<Rightarrow> xml \<Rightarrow> converse \<Rightarrow> handler_reg list \<times> converse" where
  "run_handlers dec confirm [] stanza s = ([], s)"
| "run_handlers dec confirm (h # hs) stanza s =
     (if handler_matches h stanza
      then (case run_handler dec confirm (h_fn h) stanza s of
              (keep, s1) \<Rightarrow>
                (case run_handlers dec confirm hs stanza s1 of
                   (kept, s2) \<Rightarrow> ((if keep then [h] else []) @ kept, s2)))
      else (case run_handlers dec confirm hs stanza s of (kept, s2) \<Rightarrow> (h # kept, s2)))"

definition deliver :: "(xml \<Rightarrow> chatbox \<Rightarrow> js_error + attrs list) \<Rightarrow> (prompt \<Rightarrow> bool) \<Rightarrow> xml \<Rightarrow> converse \<Rightarrow> converse" where
  "deliver dec confirm stanza s =
     (case run_handlers dec confirm (handlers s) stanza s of
        (kept, s1) \<Rightarrow> s1\<lparr>handlers := kept\<rparr>)"


section \<open>Sample data\<close>

text \<open>A session with nothing in it, from which the concrete examples below are built.\<close>

definition empty_converse :: converse where
  "empty_converse =
     \<lparr>settings = [], chatboxes = [], roster = [], bare_jid = ''romeo@montague.lit'',
      xmppstatus = None, connection_type = Websocket, converse_session = [],
      unloadevent = ''unload'', handlers = [], window_listeners = [], deferred = [],
      trace = []\<rparr>"

definition mk_chatbox :: "string \<Rightarrow> string \<Rightarrow> js_value \<Rightarrow> chatbox" where
  "mk_chatbox jid ty status =
     \<lparr>attributes = [(''jid'', JStr jid), (''id'', JStr jid), (''type'', JStr ty)],
      session = [(''connection_status'', status)],
      messages = []\<rparr>"


definition room_session :: converse where
  "room_session =
     empty_converse\<lparr>chatboxes :=
       [mk_chatbox ''orchard@conf.example'' CHATROOMS_TYPE ROOMSTATUS_CONNECTED]\<rparr>"

definition mep_stanza :: "string \<Rightarrow> string \<Rightarrow> xml" where
  "mep_stanza from ty =
     Element ''message'' [(''from'', from), (''id'', ''mep-1''), (''type'', ty)]
       [Element ''event'' [(''xmlns'', NS_PUBSUB @ ''#event'')] [Element ''items'' [] []]]"

definition decode_one :: "xml \<Rightarrow> chatbox \<Rightarrow> js_error + attrs list" where
  "decode_one st room =
     Inr [[(''msgid'', js_of_attr (getAttribute st ''id'')), (''type'', JStr ''mep'')]]"

definition decode_fails :: "xml \<Rightarrow> chatbox \<Rightarrow> js_error + attrs list" where
  "decode_fails st room = Inl (TypeError ''activities is null'')"




definition invitation :: xml where
  "invitation =
     Element ''message'' [(''from'', ''juliet@capulet.lit/balcony'')]
       [Element ''x''
          [(''xmlns'', NS_CONFERENCE), (''jid'', ''orchard@conf.example''),
           (''password'', ''secret'')] []]"

definition invitation_x :: xml where
  "invitation_x =
     Element ''x''
       [(''xmlns'', NS_CONFERENCE), (''jid'', ''orchard@conf.example''),
        (''password'', ''secret'')] []"

definition stale_session :: converse where
  "stale_session =
     empty_converse\<lparr>chatboxes :=
       [mk_chatbox ''orchard@conf.example'' CHATROOMS_TYPE ROOMSTATUS_DISCONNECTED]\<rparr>"


definition bosh_session :: converse where
  "bosh_session =
     empty_converse\<lparr>connection_type := Bosh,
       chatboxes := [mk_chatbox ''orchard@conf.example'' CHATROOMS_TYPE ROOMSTATUS_CONNECTED]\<rparr>"

definition mixed_session :: converse where
  "mixed_session =
     empty_converse\<lparr>chatboxes :=
       [mk_chatbox ''orchard@conf.example'' CHATROOMS_TYPE ROOMSTATUS_CONNECTED,
        mk_chatbox ''juliet@capulet.lit'' ''chatbox'' ROOMSTATUS_CONNECTED]\<rparr>"


definition auto_join_example :: js_value where
  "auto_join_example =
     JArr [JStr ''room1@conf.example'',
           JObj [(''jid'', JStr ''room2@conf.example''), (''nick'', JStr ''x'')],
           JNum 42]"

definition fresh_join_session :: converse where
  "fresh_join_session = empty_converse\<lparr>settings := [(''auto_join_rooms'', auto_join_example)]\<rparr>"

definition joined_session :: converse where
  "joined_session =
     empty_converse\<lparr>settings := [(''auto_join_rooms'', auto_join_example)],
       chatboxes := [mk_chatbox ''room1@conf.example'' CHATROOMS_TYPE ROOMSTATUS_CONNECTED]\<rparr>"

definition twice_session :: converse where
  "twice_session =
     empty_converse\<lparr>settings :=
         [(''auto_join_rooms'',
           JArr [JStr ''room1@conf.example'', JObj [(''jid'', JStr ''room1@conf.example'')]])],
       chatboxes := [mk_chatbox ''room1@conf.example'' CHATROOMS_TYPE ROOMSTATUS_CONNECTED]\<rparr>"


section \<open>Auxiliary facts\<close>

lemma obj_get_obj_set: "obj_get k (obj_set k' v obj) = (if k = k' then v else obj_get k obj)"
  by (induction obj) (auto simp: obj_get_def)

lemma map_of_obj_set: "map_of (obj_set k' v obj) k = (if k = k' then Some v else map_of obj k)"
  by (induction obj) auto

lemma fst_set_obj_set: "fst ` set (obj_set k v obj) = insert k (fst ` set obj)"
proof -
  have "k' \<notin> fst ` set (obj_set k v obj) \<longleftrightarrow> k' \<noteq> k \<and> k' \<notin> fst ` set obj" for k'
    unfolding map_of_eq_None_iff [symmetric] by (simp add: map_of_obj_set)
  then show ?thesis by blast
qed

lemma distinct_obj_set: "distinct (map fst obj) \<Longrightarrow> distinct (map fst (obj_set k v obj))"
proof (induction obj)
  case Nil
  then show ?case by simp
next
  case (Cons kv obj)
  obtain k' v' where kv: "kv = (k', v')" by (cases kv)
  from Cons.prems kv have d: "distinct (map fst obj)" and n: "k' \<notin> fst ` set obj" by auto
  show ?case
  proof (cases "k = k'")
    case True
    with Cons.prems kv show ?thesis by simp
  next
    case False
    with n have "k' \<notin> fst ` set (obj_set k v obj)"
      unfolding fst_set_obj_set by simp
    with False Cons.IH [OF d] kv show ?thesis by simp
  qed
qed

lemma obj_get_obj_assign:
  "distinct (map fst src) \<Longrightarrow>
   obj_get k (obj_assign target src) = (case map_of src k of Some v \<Rightarrow> v | None \<Rightarrow> obj_get k target)"
proof (induction src arbitrary: target)
  case Nil
  then show ?case by simp
next
  case (Cons kv src)
  obtain k' v' where kv: "kv = (k', v')" by (cases kv)
  from Cons.prems kv have d: "distinct (map fst src)" and n: "k' \<notin> fst ` set src" by auto
  from n have m: "map_of src k' = None" by (simp add: map_of_eq_None_iff)
  show ?case
    using Cons.IH [OF d, of "obj_set k' v' target"] m
    by (auto simp: kv obj_get_obj_set split: option.splits)
qed

lemma find_update_first:
  "(\<And>x. P x \<Longrightarrow> P (f x)) \<Longrightarrow> find P (update_first P f xs) = map_option f (find P xs)"
  by (induction xs) auto


lemma find_append_new: "find P xs = None \<Longrightarrow> find P (xs @ [y]) = (if P y then Some y else None)"
  by (induction xs) (auto split: if_splits)


lemma chatboxes_get_emit [simp]: "chatboxes_get j (emit e s) = chatboxes_get j s"
  by (simp add: chatboxes_get_def emit_def)




lemma rooms_get_lookup_fst_None:
  "fst (rooms_get jid [] False s) = None \<Longrightarrow> rooms_get jid [] False s = (None, s)"
  by (cases "chatboxes_get jid s") (simp_all add: rooms_get_def Let_def)






lemma rooms_get_create_attrs:
  assumes "distinct (map fst st)"
  shows "\<exists>room s'. rooms_get jid st True s = (Some room, s') \<and> trace s' = trace s \<and>
           (\<forall>k v. map_of st k = Some v \<longrightarrow> obj_get k (attributes room) = v)"
proof (cases "chatboxes_get jid s")
  case None
  then show ?thesis
    using assms by (simp add: rooms_get_def Let_def obj_get_obj_assign)
next
  case (Some r0)
  then show ?thesis
    using assms by (simp add: rooms_get_def Let_def obj_get_obj_assign update_room_def)
qed

lemma rooms_get_create_directory:
  assumes jid: "jid \<noteq> JNull" "jid \<noteq> JUndefined"
    and d: "distinct (map fst st)"
    and ident: "map_of st ''id'' = Some jid"
  shows "\<exists>room s'. rooms_get jid st True s = (Some room, s') \<and>
           chatboxes_get jid s' = Some room \<and>
           trace s' = trace s \<and>
           (\<forall>k v. map_of st k = Some v \<longrightarrow> obj_get k (attributes room) = v) \<and>
           session room =
             (case chatboxes_get jid s of
                None \<Rightarrow> [(''connection_status'', ROOMSTATUS_DISCONNECTED)]
              | Some r0 \<Rightarrow> session r0) \<and>
           messages room = (case chatboxes_get jid s of None \<Rightarrow> [] | Some r0 \<Rightarrow> messages r0)"
proof (cases "chatboxes_get jid s")
  case None
  let ?room = "\<lparr>attributes =
                  obj_assign [(''jid'', jid), (''id'', jid), (''type'', JStr CHATROOMS_TYPE)] st,
                session = [(''connection_status'', ROOMSTATUS_DISCONNECTED)],
                messages = []\<rparr>"
  have i: "obj_get ''id'' (attributes ?room) = jid"
    using d ident by (simp add: obj_get_obj_assign)
  from None jid have "find (\<lambda>c. obj_get ''id'' (attributes c) = jid) (chatboxes s) = None"
    by (simp add: chatboxes_get_def)
  from find_append_new [OF this, of ?room] i jid
  have "chatboxes_get jid (s\<lparr>chatboxes := chatboxes s @ [?room]\<rparr>) = Some ?room"
    by (simp add: chatboxes_get_def)
  with None show ?thesis
    using d by (simp add: rooms_get_def Let_def obj_get_obj_assign)
next
  case (Some r0)
  let ?room = "r0\<lparr>attributes := obj_assign (attributes r0) st\<rparr>"
  have i: "obj_get ''id'' (attributes ?room) = jid"
    using d ident by (simp add: obj_get_obj_assign)
  from Some jid have f: "find (\<lambda>c. obj_get ''id'' (attributes c) = jid) (chatboxes s) = Some r0"
    by (simp add: chatboxes_get_def)
  have "find (\<lambda>c. obj_get ''id'' (attributes c) = jid)
          (update_first (\<lambda>c. obj_get ''id'' (attributes c) = jid) (\<lambda>_. ?room) (chatboxes s)) =
        map_option (\<lambda>_. ?room) (find (\<lambda>c. obj_get ''id'' (attributes c) = jid) (chatboxes s))"
    by (rule find_update_first) (rule i)
  with f jid have "chatboxes_get jid (update_room jid (\<lambda>_. ?room) s) = Some ?room"
    by (simp add: chatboxes_get_def update_room_def)
  with Some show ?thesis
    using d by (simp add: rooms_get_def Let_def obj_get_obj_assign update_room_def)
qed

lemma settings2_facts:
  assumes "distinct (map fst st0)"
  shows "distinct (map fst (obj_set ''id'' jid (obj_set ''type'' ty st0)))"
    and "map_of (obj_set ''id'' jid (obj_set ''type'' ty st0)) ''id'' = Some jid"
    and "map_of (obj_set ''id'' jid (obj_set ''type'' ty st0)) ''type'' = Some ty"
    and "k \<noteq> ''id'' \<Longrightarrow> k \<noteq> ''type'' \<Longrightarrow>
         map_of (obj_set ''id'' jid (obj_set ''type'' ty st0)) k = map_of st0 k"
  using assms by (simp_all add: distinct_obj_set map_of_obj_set)


lemma invitation_accept:
  assumes x: "rev (sizzle ''x'' NS_CONFERENCE message) = x_el # others"
    and j: "getAttribute x_el ''jid'' = Some j"
    and acc: "truthy (settings_get s ''auto_join_on_invite'') \<or>
              confirm (invitation_prompt message x_el s)"
  shows "\<exists>chatroom s'.
           onDirectMUCInvitation confirm message s = (Inr (), s') \<and>
           chatboxes_get (JStr j) s' = Some chatroom \<and>
           obj_get ''password'' (attributes chatroom) = js_of_attr (getAttribute x_el ''password'') \<and>
           obj_get ''type'' (attributes chatroom) = JStr CHATROOMS_TYPE \<and>
           obj_get ''id'' (attributes chatroom) = JStr j \<and>
           session chatroom =
             (case chatboxes_get (JStr j) s of
                None \<Rightarrow> [(''connection_status'', ROOMSTATUS_DISCONNECTED)]
              | Some r0 \<Rightarrow> session r0) \<and>
           messages chatroom = (case chatboxes_get (JStr j) s of None \<Rightarrow> [] | Some r0 \<Rightarrow> messages r0) \<and>
           trace s' =
             trace s @
             (if truthy (settings_get s ''auto_join_on_invite'') then []
              else [Confirm (invitation_prompt message x_el s)]) @
             [MaybeShow (JStr j)] @
             (if obj_get ''connection_status'' (session chatroom) = ROOMSTATUS_DISCONNECTED
              then [Rejoin (JStr j)] else [])"
proof -
  let ?auto = "truthy (settings_get s ''auto_join_on_invite'')"
  let ?p = "invitation_prompt message x_el s"
  let ?s1 = "if ?auto then s else emit (Confirm ?p) s"
  let ?pw = "js_of_attr (getAttribute x_el ''password'')"
  let ?st = "[(''password'', ?pw), (''type'', JStr CHATROOMS_TYPE), (''id'', JStr j)]"
  have st: "obj_set ''id'' (JStr j) (obj_set ''type'' (JStr CHATROOMS_TYPE) [(''password'', ?pw)]) = ?st"
    by simp
  have "distinct (map fst ?st)" "map_of ?st ''id'' = Some (JStr j)" by simp_all
  from rooms_get_create_directory [OF _ _ this, of ?s1]
  obtain room s2 where r: "rooms_get (JStr j) ?st True ?s1 = (Some room, s2)"
    and dir: "chatboxes_get (JStr j) s2 = Some room"
    and tr: "trace s2 = trace ?s1"
    and at: "\<forall>k v. map_of ?st k = Some v \<longrightarrow> obj_get k (attributes room) = v"
    and se: "session room =
             (case chatboxes_get (JStr j) ?s1 of
                None \<Rightarrow> [(''connection_status'', ROOMSTATUS_DISCONNECTED)]
              | Some r0 \<Rightarrow> session r0)"
    and me: "messages room = (case chatboxes_get (JStr j) ?s1 of None \<Rightarrow> [] | Some r0 \<Rightarrow> messages r0)"
    by auto
  have s1: "chatboxes_get (JStr j) ?s1 = chatboxes_get (JStr j) s" by simp
  from at have a: "obj_get ''password'' (attributes room) = ?pw"
    "obj_get ''type'' (attributes room) = JStr CHATROOMS_TYPE"
    "obj_get ''id'' (attributes room) = JStr j" by simp_all
  have op: "openChatRoom (JStr j) [(''password'', ?pw)] ?s1 = (Inr room, ?st, emit (MaybeShow (JStr j)) s2)"
    using r a by (simp add: openChatRoom_def Let_def)
  have res: "onDirectMUCInvitation confirm message s =
          (Inr (), if obj_get ''connection_status'' (session room) = ROOMSTATUS_DISCONNECTED
                   then emit (Rejoin (JStr j)) (emit (MaybeShow (JStr j)) s2)
                   else emit (MaybeShow (JStr j)) s2)"
  proof (cases ?auto)
    case True
    with op have "openChatRoom (JStr j) [(''password'', ?pw)] s = (Inr room, ?st, emit (MaybeShow (JStr j)) s2)"
      by simp
    with True x j dir show ?thesis
      by (simp add: onDirectMUCInvitation_def Let_def js_of_attr_def)
  next
    case False
    with op have "openChatRoom (JStr j) [(''password'', ?pw)] (emit (Confirm ?p) s) =
        (Inr room, ?st, emit (MaybeShow (JStr j)) s2)"
      by simp
    with False acc x j dir show ?thesis
      by (simp add: onDirectMUCInvitation_def Let_def js_of_attr_def)
  qed
  have tr1: "trace ?s1 = trace s @ (if ?auto then [] else [Confirm ?p])"
    by (simp add: emit_def)
  show ?thesis
    using res dir a se me tr tr1 unfolding s1
    by (auto simp: emit_def chatboxes_get_def)
qed

lemma invitation_decline:
  assumes x: "rev (sizzle ''x'' NS_CONFERENCE message) = x_el # others"
    and dec: "\<not> truthy (settings_get s ''auto_join_on_invite'')"
      "\<not> confirm (invitation_prompt message x_el s)"
  shows "onDirectMUCInvitation confirm message s =
           (Inr (), emit (Confirm (invitation_prompt message x_el s)) s)"
  using x dec by (simp add: onDirectMUCInvitation_def Let_def)

lemma invitation_auto:
  assumes "truthy (settings_get s ''auto_join_on_invite'')"
  shows "onDirectMUCInvitation confirm message s = onDirectMUCInvitation confirm' message s"
  using assms by (simp add: onDirectMUCInvitation_def Let_def split: list.splits)


lemma promise_all_Fulfils: "promise_all ps = Fulfils \<longleftrightarrow> (\<forall>p \<in> set ps. p = Fulfils)"
proof (cases "find is_reject ps")
  case None
  then have nr: "\<forall>p \<in> set ps. \<not> is_reject p" by (simp add: find_None_iff)
  have "(\<forall>p \<in> set ps. p = Fulfils) \<longleftrightarrow> Pending \<notin> set ps"
  proof
    assume "\<forall>p \<in> set ps. p = Fulfils" then show "Pending \<notin> set ps" by auto
  next
    assume np: "Pending \<notin> set ps"
    show "\<forall>p \<in> set ps. p = Fulfils"
    proof
      fix p assume "p \<in> set ps"
      with nr np show "p = Fulfils" by (cases p) auto
    qed
  qed
  with None show ?thesis by (simp add: promise_all_def)
next
  case (Some r)
  then have m: "r \<in> set ps" and "is_reject r" by (auto simp: find_Some_iff)
  then have r: "r \<noteq> Fulfils" by (cases r) auto
  with m have "\<not> (\<forall>p \<in> set ps. p = Fulfils)" by blast
  with Some r show ?thesis by (simp add: promise_all_def)
qed

lemma chatboxes_autoJoinEntry: "chatboxes (snd (autoJoinEntry ro muc s)) = chatboxes s"
  by (cases muc) (simp_all add: autoJoinEntry_def emit_def Let_def)

lemma snd_mapEntries_Cons:
  "snd (mapEntries ro (muc # es) s) = snd (mapEntries ro es (snd (autoJoinEntry ro muc s)))"
  by (simp split: prod.splits)

lemma where_jid_cong: "chatboxes t = chatboxes s \<Longrightarrow> chatboxes_where_jid j t = chatboxes_where_jid j s"
  by (simp add: chatboxes_where_jid_def)

lemma trace_autoJoinEntry_mono: "set (trace s) \<subseteq> set (trace (snd (autoJoinEntry ro muc s)))"
  by (cases muc) (auto simp: autoJoinEntry_def emit_def Let_def)

lemma trace_mapEntries_mono: "set (trace s) \<subseteq> set (trace (snd (mapEntries ro es s)))"
proof (induction es arbitrary: s)
  case Nil
  then show ?case by simp
next
  case (Cons muc es)
  from Cons.IH [of "snd (autoJoinEntry ro muc s)"] trace_autoJoinEntry_mono [of s ro muc]
  show ?case unfolding snd_mapEntries_Cons by blast
qed

lemma object_entry_opened:
  "JObj kvs \<in> set es \<Longrightarrow>
   RoomsOpen [obj_get ''jid'' kvs, JObj kvs] \<in> set (trace (snd (mapEntries ro es s)))"
proof (induction es arbitrary: s)
  case Nil
  then show ?case by simp
next
  case (Cons muc es)
  show ?case
  proof (cases "muc = JObj kvs")
    case True
    have "RoomsOpen [obj_get ''jid'' kvs, JObj kvs] \<in> set (trace (snd (autoJoinEntry ro (JObj kvs) s)))"
      by (simp add: autoJoinEntry_def emit_def Let_def)
    with trace_mapEntries_mono [of "snd (autoJoinEntry ro (JObj kvs) s)" ro es] True
    show ?thesis unfolding snd_mapEntries_Cons by blast
  next
    case False
    with Cons.prems have "JObj kvs \<in> set es" by simp
    from Cons.IH [OF this, of "snd (autoJoinEntry ro muc s)"]
    show ?thesis unfolding snd_mapEntries_Cons .
  qed
qed

lemma string_entry_skipped_one:
  "chatboxes_where_jid j s \<noteq> [] \<Longrightarrow> RoomsOpen [JStr j] \<notin> set (trace s) \<Longrightarrow>
   RoomsOpen [JStr j] \<notin> set (trace (snd (autoJoinEntry ro muc s)))"
  by (cases muc) (auto simp: autoJoinEntry_def emit_def Let_def)

lemma string_entry_skipped:
  "chatboxes_where_jid j s \<noteq> [] \<Longrightarrow> RoomsOpen [JStr j] \<notin> set (trace s) \<Longrightarrow>
   RoomsOpen [JStr j] \<notin> set (trace (snd (mapEntries ro es s)))"
proof (induction es arbitrary: s)
  case Nil
  then show ?case by simp
next
  case (Cons muc es)
  let ?s1 = "snd (autoJoinEntry ro muc s)"
  have w: "chatboxes_where_jid j ?s1 \<noteq> []"
    using Cons.prems(1) where_jid_cong [OF chatboxes_autoJoinEntry, of j ro muc s] by simp
  have n: "RoomsOpen [JStr j] \<notin> set (trace ?s1)"
    using Cons.prems by (rule string_entry_skipped_one)
  from Cons.IH [OF w n] show ?case unfolding snd_mapEntries_Cons .
qed

lemma trace_autoJoinRooms:
  "settings_get s ''auto_join_rooms'' = JArr es \<Longrightarrow>
   trace (snd (autoJoinRooms ro s)) =
     trace (snd (mapEntries ro es s)) @
     (if fst (autoJoinRooms ro s) = Fulfils then [Trigger RoomsAutoJoined] else [])"
  by (simp add: autoJoinRooms_def emit_def split: prod.splits settle.splits)


lemma run_handler_keeps: "fst (run_handler dec confirm h st s) = True"
  by (cases h)
     (simp_all add: directInvitationHandler_def checkIfMEP_def checkIfMEP_try_def
        groupchatRouter_def Let_def split: prod.splits option.splits)


lemma checkIfMEP_try_never_throws: "fst (checkIfMEP_try dec st s) = None"
  by (simp add: checkIfMEP_try_def)


section \<open>Duplicate room notifications\<close>





section \<open>Page unload\<close>

text \<open>
  On a BOSH connection with stream management off and no stream id in the session, the
  unload listener leaves a connected room of type \<^verbatim>\<open>CHATROOMS_TYPE\<close> connected: the
  listener first asks whether the connection is a websocket.
\<close>


theorem unload_without_websocket_counterexample:
  "\<not> truthy (settings_get bosh_session ''enable_smacks'') \<and>
   \<not> truthy (obj_get ''smacks_stream_id'' (converse_session bosh_session)) \<and>
   map (\<lambda>m. obj_get ''type'' (attributes m)) (chatboxes bosh_session) = [JStr CHATROOMS_TYPE] \<and>
   map (\<lambda>m. obj_get ''connection_status'' (session m)) (chatboxes (unloadListener bosh_session)) =
     [ROOMSTATUS_CONNECTED] \<and>
   ROOMSTATUS_CONNECTED \<noteq> ROOMSTATUS_DISCONNECTED"
  by (simp add: unloadListener_def connection_isType_def bosh_session_def empty_converse_def
        mk_chatbox_def settings_get_def obj_get_def CHATROOMS_TYPE_def
        ROOMSTATUS_CONNECTED_def ROOMSTATUS_DISCONNECTED_def)

text \<open>
  Claim C2, amended. When the page unloads and the connection is a websocket that cannot
  be resumed (\<^verbatim>\<open>enable_smacks\<close> is off, or the session holds no \<^verbatim>\<open>smacks_stream_id\<close>),
  every chat box of type \<^verbatim>\<open>CHATROOMS_TYPE\<close> has its session's \<^verbatim>\<open>connection_status\<close> set to
  disconnected, and every other chat box, and the rest of the state, is unchanged. On any
  other connection the listener changes nothing. \<^verbatim>\<open>onStatusInitialized\<close> registers the
  listener for the unload event.
\<close>

theorem unloadListener_disconnects_groupchats:
  "(connection_isType s ''websocket'' \<and>
    (\<not> truthy (settings_get s ''enable_smacks'') \<or>
     \<not> truthy (obj_get ''smacks_stream_id'' (converse_session s))) \<longrightarrow>
      unloadListener s = s\<lparr>chatboxes := chatboxes (unloadListener s)\<rparr> \<and>
      length (chatboxes (unloadListener s)) = length (chatboxes s) \<and>
      (\<forall>i < length (chatboxes s).
         (obj_get ''type'' (attributes (chatboxes s ! i)) = JStr CHATROOMS_TYPE \<longrightarrow>
            chatboxes (unloadListener s) ! i =
              (chatboxes s ! i)\<lparr>session :=
                 obj_set ''connection_status'' ROOMSTATUS_DISCONNECTED (session (chatboxes s ! i))\<rparr> \<and>
            obj_get ''connection_status'' (session (chatboxes (unloadListener s) ! i)) =
              ROOMSTATUS_DISCONNECTED) \<and>
         (obj_get ''type'' (attributes (chatboxes s ! i)) \<noteq> JStr CHATROOMS_TYPE \<longrightarrow>
            chatboxes (unloadListener s) ! i = chatboxes s ! i))) \<and>
   (\<not> (connection_isType s ''websocket'' \<and>
       (\<not> truthy (settings_get s ''enable_smacks'') \<or>
        \<not> truthy (obj_get ''smacks_stream_id'' (converse_session s)))) \<longrightarrow>
      unloadListener s = s) \<and>
   window_listeners (onStatusInitialized s) = window_listeners s @ [(unloadevent s, UnloadListener)] \<and>
   (window_listeners s = [] \<longrightarrow>
      dispatchEvent (unloadevent s) (onStatusInitialized s) = unloadListener (onStatusInitialized s))"
proof (intro conjI impI)
  assume c: "connection_isType s ''websocket'' \<and>
    (\<not> truthy (settings_get s ''enable_smacks'') \<or>
     \<not> truthy (obj_get ''smacks_stream_id'' (converse_session s)))"
  then have u: "unloadListener s = disconnectChatRooms s"
    by (auto simp: unloadListener_def)
  show "unloadListener s = s\<lparr>chatboxes := chatboxes (unloadListener s)\<rparr>"
    unfolding u by (simp add: disconnectChatRooms_def)
  show "length (chatboxes (unloadListener s)) = length (chatboxes s)"
    unfolding u by (simp add: disconnectChatRooms_def)
  show "\<forall>i < length (chatboxes s).
         (obj_get ''type'' (attributes (chatboxes s ! i)) = JStr CHATROOMS_TYPE \<longrightarrow>
            chatboxes (unloadListener s) ! i =
              (chatboxes s ! i)\<lparr>session :=
                 obj_set ''connection_status'' ROOMSTATUS_DISCONNECTED (session (chatboxes s ! i))\<rparr> \<and>
            obj_get ''connection_status'' (session (chatboxes (unloadListener s) ! i)) =
              ROOMSTATUS_DISCONNECTED) \<and>
         (obj_get ''type'' (attributes (chatboxes s ! i)) \<noteq> JStr CHATROOMS_TYPE \<longrightarrow>
            chatboxes (unloadListener s) ! i = chatboxes s ! i)"
    unfolding u by (simp add: disconnectChatRooms_def obj_get_obj_set)
next
  assume "\<not> (connection_isType s ''websocket'' \<and>
       (\<not> truthy (settings_get s ''enable_smacks'') \<or>
        \<not> truthy (obj_get ''smacks_stream_id'' (converse_session s))))"
  then show "unloadListener s = s"
    by (auto simp: unloadListener_def)
next
  show "window_listeners (onStatusInitialized s) = window_listeners s @ [(unloadevent s, UnloadListener)]"
    by (simp add: onStatusInitialized_def)
next
  assume "window_listeners s = []"
  then show "dispatchEvent (unloadevent s) (onStatusInitialized s) = unloadListener (onStatusInitialized s)"
    by (simp add: dispatchEvent_def onStatusInitialized_def)
qed

theorem unloadListener_disconnects_groupchats_witness:
  "chatboxes (unloadListener mixed_session) =
     [mk_chatbox ''orchard@conf.example'' CHATROOMS_TYPE ROOMSTATUS_DISCONNECTED,
      mk_chatbox ''juliet@capulet.lit'' ''chatbox'' ROOMSTATUS_CONNECTED] \<and>
   unloadListener bosh_session = bosh_session"
proof -
  have c: "connection_isType mixed_session ''websocket'' \<and>
    (\<not> truthy (settings_get mixed_session ''enable_smacks'') \<or>
     \<not> truthy (obj_get ''smacks_stream_id'' (converse_session mixed_session)))"
    by (simp add: connection_isType_def mixed_session_def empty_converse_def
          settings_get_def obj_get_def)
  have n: "\<not> (connection_isType bosh_session ''websocket'' \<and>
    (\<not> truthy (settings_get bosh_session ''enable_smacks'') \<or>
     \<not> truthy (obj_get ''smacks_stream_id'' (converse_session bosh_session))))"
    by (simp add: connection_isType_def bosh_session_def empty_converse_def)
  have cs: "chatboxes mixed_session =
     [mk_chatbox ''orchard@conf.example'' CHATROOMS_TYPE ROOMSTATUS_CONNECTED,
      mk_chatbox ''juliet@capulet.lit'' ''chatbox'' ROOMSTATUS_CONNECTED]"
    by (simp add: mixed_session_def empty_converse_def)
  note t = unloadListener_disconnects_groupchats [of mixed_session]
  from t c have len: "length (chatboxes (unloadListener mixed_session)) = 2"
    unfolding cs by simp
  from t c have "\<forall>i < length (chatboxes mixed_session).
         (obj_get ''type'' (attributes (chatboxes mixed_session ! i)) = JStr CHATROOMS_TYPE \<longrightarrow>
            chatboxes (unloadListener mixed_session) ! i =
              (chatboxes mixed_session ! i)\<lparr>session :=
                 obj_set ''connection_status'' ROOMSTATUS_DISCONNECTED (session (chatboxes mixed_session ! i))\<rparr> \<and>
            obj_get ''connection_status'' (session (chatboxes (unloadListener mixed_session) ! i)) =
              ROOMSTATUS_DISCONNECTED) \<and>
         (obj_get ''type'' (attributes (chatboxes mixed_session ! i)) \<noteq> JStr CHATROOMS_TYPE \<longrightarrow>
            chatboxes (unloadListener mixed_session) ! i = chatboxes mixed_session ! i)"
    by blast
  then have e0: "chatboxes (unloadListener mixed_session) ! 0 =
       mk_chatbox ''orchard@conf.example'' CHATROOMS_TYPE ROOMSTATUS_DISCONNECTED"
    and e1: "chatboxes (unloadListener mixed_session) ! 1 =
       mk_chatbox ''juliet@capulet.lit'' ''chatbox'' ROOMSTATUS_CONNECTED"
    unfolding cs by (simp_all add: mk_chatbox_def obj_get_def CHATROOMS_TYPE_def)
  have a: "chatboxes (unloadListener mixed_session) =
     [mk_chatbox ''orchard@conf.example'' CHATROOMS_TYPE ROOMSTATUS_DISCONNECTED,
      mk_chatbox ''juliet@capulet.lit'' ''chatbox'' ROOMSTATUS_CONNECTED]"
    using len e0 e1 by (intro nth_equalityI) (auto simp: less_Suc_eq numeral_2_eq_2)
  from unloadListener_disconnects_groupchats [of bosh_session] n
  have b: "unloadListener bosh_session = bosh_session" by blast
  from a b show ?thesis by blast
qed


section \<open>Properties of role assignment\<close>

text \<open>
  Claim C3. An occupant whose role is not moderator can assign no role. A moderator can
  assign the roles of \<^verbatim>\<open>ROLES\<close> that the setting \<^verbatim>\<open>modtools_disable_assign\<close> does not list;
  a setting that is not an array but truthy stands for all of \<^verbatim>\<open>ROLES\<close>, so nothing is
  left (and a falsy one stands for the empty list, so all roles are left); with the
  setting \<^verbatim>\<open>['moderator']\<close> the result is \<^verbatim>\<open>['participant', 'visitor']\<close>.
\<close>

theorem getAssignableRoles_spec:
  "(obj_get ''role'' occupant \<noteq> JStr ''moderator'' \<longrightarrow> getAssignableRoles s occupant = []) \<and>
   (obj_get ''role'' occupant = JStr ''moderator'' \<longrightarrow>
      (\<forall>ds. settings_get s ''modtools_disable_assign'' = JArr ds \<longrightarrow>
         getAssignableRoles s occupant = filter (\<lambda>r. JStr r \<notin> set ds) ROLES) \<and>
      ((\<forall>ds. settings_get s ''modtools_disable_assign'' \<noteq> JArr ds) \<and>
        truthy (settings_get s ''modtools_disable_assign'') \<longrightarrow>
         getAssignableRoles s occupant = []) \<and>
      ((\<forall>ds. settings_get s ''modtools_disable_assign'' \<noteq> JArr ds) \<and>
        \<not> truthy (settings_get s ''modtools_disable_assign'') \<longrightarrow>
         getAssignableRoles s occupant = ROLES) \<and>
      (settings_get s ''modtools_disable_assign'' = JArr [JStr ''moderator''] \<longrightarrow>
         getAssignableRoles s occupant = [''participant'', ''visitor'']))"
proof (intro conjI impI allI)
  assume "obj_get ''role'' occupant \<noteq> JStr ''moderator''"
  then show "getAssignableRoles s occupant = []"
    by (simp add: getAssignableRoles_def Let_def)
next
  fix ds
  assume "obj_get ''role'' occupant = JStr ''moderator''"
    and "settings_get s ''modtools_disable_assign'' = JArr ds"
  then show "getAssignableRoles s occupant = filter (\<lambda>r. JStr r \<notin> set ds) ROLES"
    by (simp add: getAssignableRoles_def Let_def)
next
  assume m: "obj_get ''role'' occupant = JStr ''moderator''"
    and d: "(\<forall>ds. settings_get s ''modtools_disable_assign'' \<noteq> JArr ds) \<and>
            truthy (settings_get s ''modtools_disable_assign'')"
  from d have "(case settings_get s ''modtools_disable_assign'' of
                  JArr ds \<Rightarrow> ds
                | _ \<Rightarrow> if truthy (settings_get s ''modtools_disable_assign'')
                       then map JStr ROLES else []) = map JStr ROLES"
    by (cases "settings_get s ''modtools_disable_assign''") simp_all
  with m show "getAssignableRoles s occupant = []"
    by (simp add: getAssignableRoles_def Let_def ROLES_def)
next
  assume m: "obj_get ''role'' occupant = JStr ''moderator''"
    and d: "(\<forall>ds. settings_get s ''modtools_disable_assign'' \<noteq> JArr ds) \<and>
            \<not> truthy (settings_get s ''modtools_disable_assign'')"
  from d have "(case settings_get s ''modtools_disable_assign'' of
                  JArr ds \<Rightarrow> ds
                | _ \<Rightarrow> if truthy (settings_get s ''modtools_disable_assign'')
                       then map JStr ROLES else []) = []"
    by (cases "settings_get s ''modtools_disable_assign''") simp_all
  with m show "getAssignableRoles s occupant = ROLES"
    by (simp add: getAssignableRoles_def Let_def)
next
  assume "obj_get ''role'' occupant = JStr ''moderator''"
    and "settings_get s ''modtools_disable_assign'' = JArr [JStr ''moderator'']"
  then show "getAssignableRoles s occupant = [''participant'', ''visitor'']"
    by (simp add: getAssignableRoles_def Let_def ROLES_def)
qed

theorem getAssignableRoles_spec_witness:
  "getAssignableRoles
     (empty_converse\<lparr>settings := [(''modtools_disable_assign'', JArr [JStr ''moderator''])]\<rparr>)
     [(''role'', JStr ''moderator'')] = [''participant'', ''visitor''] \<and>
   getAssignableRoles
     (empty_converse\<lparr>settings := [(''modtools_disable_assign'', JArr [JStr ''moderator''])]\<rparr>)
     [(''role'', JStr ''participant'')] = [] \<and>
   getAssignableRoles
     (empty_converse\<lparr>settings := [(''modtools_disable_assign'', JBool True)]\<rparr>)
     [(''role'', JStr ''moderator'')] = []"
proof -
  let ?s = "empty_converse\<lparr>settings := [(''modtools_disable_assign'', JArr [JStr ''moderator''])]\<rparr>"
  let ?t = "empty_converse\<lparr>settings := [(''modtools_disable_assign'', JBool True)]\<rparr>"
  have a: "settings_get ?s ''modtools_disable_assign'' = JArr [JStr ''moderator'']"
    by (simp add: settings_get_def obj_get_def)
  have b: "(\<forall>ds. settings_get ?t ''modtools_disable_assign'' \<noteq> JArr ds) \<and>
           truthy (settings_get ?t ''modtools_disable_assign'')"
    by (simp add: settings_get_def obj_get_def)
  have m: "obj_get ''role'' [(''role'', JStr ''moderator'')] = JStr ''moderator''"
    by (simp add: obj_get_def)
  have p: "obj_get ''role'' [(''role'', JStr ''participant'')] \<noteq> JStr ''moderator''"
    by (simp add: obj_get_def)
  from getAssignableRoles_spec [of "[(''role'', JStr ''moderator'')]" ?s] a m
  have 1: "getAssignableRoles ?s [(''role'', JStr ''moderator'')] = [''participant'', ''visitor'']"
    by blast
  from getAssignableRoles_spec [of "[(''role'', JStr ''participant'')]" ?s] p
  have 2: "getAssignableRoles ?s [(''role'', JStr ''participant'')] = []"
    by blast
  from getAssignableRoles_spec [of "[(''role'', JStr ''moderator'')]" ?t] b m
  have 3: "getAssignableRoles ?t [(''role'', JStr ''moderator'')] = []"
    by blast
  from 1 2 3 show ?thesis by blast
qed


section \<open>Auto-join on the example setting\<close>

text \<open>
  With the example setting and a chat box for room1 already in the directory, no
  \<^verbatim>\<open>api.rooms.open\<close> call is issued for room1. And when an open rejects, the completion
  event is not fired at all.
\<close>


theorem autoJoinRooms_existing_room_counterexample:
  "settings_get joined_session ''auto_join_rooms'' =
     JArr [JStr ''room1@conf.example'',
           JObj [(''jid'', JStr ''room2@conf.example''), (''nick'', JStr ''x'')],
           JNum 42] \<and>
   autoJoinRooms (\<lambda>args. Fulfils) joined_session =
     (Fulfils,
      joined_session\<lparr>trace :=
        [RoomsOpen [JStr ''room2@conf.example'',
                    JObj [(''jid'', JStr ''room2@conf.example''), (''nick'', JStr ''x'')]],
         LogError invalid_muc_msg,
         Trigger RoomsAutoJoined]\<rparr>) \<and>
   RoomsOpen [JStr ''room1@conf.example'']
     \<notin> set (trace (snd (autoJoinRooms (\<lambda>args. Fulfils) joined_session))) \<and>
   Trigger RoomsAutoJoined
     \<notin> set (trace (snd (autoJoinRooms (\<lambda>args. Rejects (Error ''refused'')) joined_session)))"
  by (simp add: autoJoinRooms_def autoJoinEntry_def promise_all_def chatboxes_where_jid_def
        joined_session_def auto_join_example_def empty_converse_def mk_chatbox_def
        settings_get_def obj_get_def emit_def)

text \<open>
  Claim C4, amended. Given the setting \<^verbatim>\<open>[r1, {jid: r2, nick: x}, 42]\<close>, \<^verbatim>\<open>autoJoinRooms\<close>
  issues an open for \<^verbatim>\<open>r1\<close> unless a chat box with that JID exists, then an open for
  \<^verbatim>\<open>r2\<close> with a copy of the entry as settings, then logs an error for 42 and goes on.
  When every issued open fulfils, it fires \<^verbatim>\<open>roomsAutoJoined\<close> exactly once, after all of
  that, and its own promise fulfils; when an open rejects or never settles, the event is
  not fired.
\<close>

theorem autoJoinRooms_example:
  assumes setting: "settings_get s ''auto_join_rooms'' =
     JArr [JStr r1, JObj [(''jid'', JStr r2), (''nick'', JStr x)], JNum 42]"
  shows
    "(let open1 = [JStr r1];
          open2 = [JStr r2, JObj [(''jid'', JStr r2), (''nick'', JStr x)]];
          issued = (if chatboxes_where_jid r1 s = [] then [open1] else []) @ [open2];
          effects = map RoomsOpen issued @ [LogError invalid_muc_msg]
      in (list_all (\<lambda>args. rooms_open args = Fulfils) issued \<longrightarrow>
            autoJoinRooms rooms_open s =
              (Fulfils, s\<lparr>trace := trace s @ effects @ [Trigger RoomsAutoJoined]\<rparr>) \<and>
            length (filter (\<lambda>e. e = Trigger RoomsAutoJoined) (trace (snd (autoJoinRooms rooms_open s)))) =
              length (filter (\<lambda>e. e = Trigger RoomsAutoJoined) (trace s)) + 1) \<and>
         (\<not> list_all (\<lambda>args. rooms_open args = Fulfils) issued \<longrightarrow>
            fst (autoJoinRooms rooms_open s) \<noteq> Fulfils \<and>
            snd (autoJoinRooms rooms_open s) = s\<lparr>trace := trace s @ effects\<rparr>))"
proof -
  let ?open1 = "[JStr r1]"
  let ?open2 = "[JStr r2, JObj [(''jid'', JStr r2), (''nick'', JStr x)]]"
  have k: "obj_get ''jid'' [(''jid'', JStr r2), (''nick'', JStr x)] = JStr r2"
    by (simp add: obj_get_def)
  show ?thesis
  proof (cases "chatboxes_where_jid r1 s = []")
    case True
    then have m: "mapEntries rooms_open
            [JStr r1, JObj [(''jid'', JStr r2), (''nick'', JStr x)], JNum 42] s =
          ([rooms_open ?open1, rooms_open ?open2, Fulfils],
           s\<lparr>trace := trace s @ [RoomsOpen ?open1, RoomsOpen ?open2, LogError invalid_muc_msg]\<rparr>)"
      by (simp add: autoJoinEntry_def emit_def Let_def k chatboxes_where_jid_def)
    show ?thesis
    proof (cases "rooms_open ?open1 = Fulfils \<and> rooms_open ?open2 = Fulfils")
      case True
      then have "promise_all [rooms_open ?open1, rooms_open ?open2, Fulfils] = Fulfils"
        by (simp add: promise_all_Fulfils)
      with True \<open>chatboxes_where_jid r1 s = []\<close> setting m show ?thesis
        by (simp add: autoJoinRooms_def emit_def Let_def)
    next
      case False
      then have "promise_all [rooms_open ?open1, rooms_open ?open2, Fulfils] \<noteq> Fulfils"
        by (auto simp: promise_all_Fulfils)
      with False \<open>chatboxes_where_jid r1 s = []\<close> setting m show ?thesis
        by (auto simp: autoJoinRooms_def emit_def Let_def split: settle.splits)
    qed
  next
    case False
    then have m: "mapEntries rooms_open
            [JStr r1, JObj [(''jid'', JStr r2), (''nick'', JStr x)], JNum 42] s =
          ([Fulfils, rooms_open ?open2, Fulfils],
           s\<lparr>trace := trace s @ [RoomsOpen ?open2, LogError invalid_muc_msg]\<rparr>)"
      by (simp add: autoJoinEntry_def emit_def Let_def k)
    show ?thesis
    proof (cases "rooms_open ?open2 = Fulfils")
      case True
      then have "promise_all [Fulfils, rooms_open ?open2, Fulfils] = Fulfils"
        by (simp add: promise_all_Fulfils)
      with True \<open>chatboxes_where_jid r1 s \<noteq> []\<close> setting m show ?thesis
        by (simp add: autoJoinRooms_def emit_def Let_def)
    next
      case False
      then have "promise_all [Fulfils, rooms_open ?open2, Fulfils] \<noteq> Fulfils"
        by (auto simp: promise_all_Fulfils)
      with False \<open>chatboxes_where_jid r1 s \<noteq> []\<close> setting m show ?thesis
        by (auto simp: autoJoinRooms_def emit_def Let_def split: settle.splits)
    qed
  qed
qed

theorem autoJoinRooms_example_witness:
  "autoJoinRooms (\<lambda>args. Fulfils) fresh_join_session =
     (Fulfils,
      fresh_join_session\<lparr>trace :=
        [RoomsOpen [JStr ''room1@conf.example''],
         RoomsOpen [JStr ''room2@conf.example'',
                    JObj [(''jid'', JStr ''room2@conf.example''), (''nick'', JStr ''x'')]],
         LogError invalid_muc_msg,
         Trigger RoomsAutoJoined]\<rparr>) \<and>
   snd (autoJoinRooms (\<lambda>args. Pending) fresh_join_session) =
     fresh_join_session\<lparr>trace :=
        [RoomsOpen [JStr ''room1@conf.example''],
         RoomsOpen [JStr ''room2@conf.example'',
                    JObj [(''jid'', JStr ''room2@conf.example''), (''nick'', JStr ''x'')]],
         LogError invalid_muc_msg]\<rparr>"
proof -
  have setting: "settings_get fresh_join_session ''auto_join_rooms'' =
     JArr [JStr ''room1@conf.example'',
           JObj [(''jid'', JStr ''room2@conf.example''), (''nick'', JStr ''x'')], JNum 42]"
    by (simp add: fresh_join_session_def auto_join_example_def empty_converse_def
          settings_get_def obj_get_def)
  have g: "chatboxes_where_jid ''room1@conf.example'' fresh_join_session = []"
    by (simp add: chatboxes_where_jid_def fresh_join_session_def empty_converse_def)
  have tr: "trace fresh_join_session = []"
    by (simp add: fresh_join_session_def empty_converse_def)
  from autoJoinRooms_example [OF setting, of "\<lambda>args. Fulfils"] g
  have a: "autoJoinRooms (\<lambda>args. Fulfils) fresh_join_session =
     (Fulfils,
      fresh_join_session\<lparr>trace :=
        [RoomsOpen [JStr ''room1@conf.example''],
         RoomsOpen [JStr ''room2@conf.example'',
                    JObj [(''jid'', JStr ''room2@conf.example''), (''nick'', JStr ''x'')]],
         LogError invalid_muc_msg,
         Trigger RoomsAutoJoined]\<rparr>)"
    by (simp add: Let_def tr)
  from autoJoinRooms_example [OF setting, of "\<lambda>args. Pending"] g
  have b: "snd (autoJoinRooms (\<lambda>args. Pending) fresh_join_session) =
     fresh_join_session\<lparr>trace :=
        [RoomsOpen [JStr ''room1@conf.example''],
         RoomsOpen [JStr ''room2@conf.example'',
                    JObj [(''jid'', JStr ''room2@conf.example''), (''nick'', JStr ''x'')]],
         LogError invalid_muc_msg]\<rparr>"
    by (simp add: Let_def tr)
  from a b show ?thesis by blast
qed


section \<open>Direct invitations\<close>

text \<open>
  Claim C5. Take an invitation that carries an \<^verbatim>\<open>x\<close> element with the room's JID. It is
  accepted when \<^verbatim>\<open>auto_join_on_invite\<close> is set (then no prompt is shown and the user's
  answer plays no part) or when the user confirms the prompt. On acceptance the promise
  fulfils and the room under that JID is in the directory with the invitation's
  password and type \<^verbatim>\<open>CHATROOMS_TYPE\<close>: a new room starts disconnected, an existing one
  keeps its session and its log; the room is shown, and a rejoin is triggered after that
  exactly when its session's \<^verbatim>\<open>connection_status\<close> is disconnected. On decline the state
  is as before but for the prompt in the trace: no room changes.
\<close>


theorem onDirectMUCInvitation_accept_decline:
  assumes x: "rev (sizzle ''x'' NS_CONFERENCE message) = x_el # others"
    and j: "getAttribute x_el ''jid'' = Some j"
  shows
    "(truthy (settings_get s ''auto_join_on_invite'') \<or> confirm (invitation_prompt message x_el s) \<longrightarrow>
        (case onDirectMUCInvitation confirm message s of
           (outcome, s') \<Rightarrow>
             outcome = Inr () \<and>
             (case chatboxes_get (JStr j) s' of
                None \<Rightarrow> False
              | Some chatroom \<Rightarrow>
                  obj_get ''password'' (attributes chatroom) =
                    js_of_attr (getAttribute x_el ''password'') \<and>
                  obj_get ''type'' (attributes chatroom) = JStr CHATROOMS_TYPE \<and>
                  obj_get ''id'' (attributes chatroom) = JStr j \<and>
                  session chatroom =
                    (case chatboxes_get (JStr j) s of
                       None \<Rightarrow> [(''connection_status'', ROOMSTATUS_DISCONNECTED)]
                     | Some r0 \<Rightarrow> session r0) \<and>
                  messages chatroom =
                    (case chatboxes_get (JStr j) s of None \<Rightarrow> [] | Some r0 \<Rightarrow> messages r0) \<and>
                  trace s' =
                    trace s @
                    (if truthy (settings_get s ''auto_join_on_invite'') then []
                     else [Confirm (invitation_prompt message x_el s)]) @
                    [MaybeShow (JStr j)] @
                    (if obj_get ''connection_status'' (session chatroom) = ROOMSTATUS_DISCONNECTED
                     then [Rejoin (JStr j)] else [])))) \<and>
     (truthy (settings_get s ''auto_join_on_invite'') \<longrightarrow>
        onDirectMUCInvitation confirm message s = onDirectMUCInvitation (\<lambda>p. False) message s) \<and>
     (\<not> truthy (settings_get s ''auto_join_on_invite'') \<and>
      \<not> confirm (invitation_prompt message x_el s) \<longrightarrow>
        onDirectMUCInvitation confirm message s =
          (Inr (), s\<lparr>trace := trace s @ [Confirm (invitation_prompt message x_el s)]\<rparr>) \<and>
        chatboxes (snd (onDirectMUCInvitation confirm message s)) = chatboxes s)"
proof (intro conjI impI)
  assume "truthy (settings_get s ''auto_join_on_invite'') \<or> confirm (invitation_prompt message x_el s)"
  from invitation_accept [where confirm = confirm and s = s, OF x j this]
  show "case onDirectMUCInvitation confirm message s of
           (outcome, s') \<Rightarrow>
             outcome = Inr () \<and>
             (case chatboxes_get (JStr j) s' of
                None \<Rightarrow> False
              | Some chatroom \<Rightarrow>
                  obj_get ''password'' (attributes chatroom) =
                    js_of_attr (getAttribute x_el ''password'') \<and>
                  obj_get ''type'' (attributes chatroom) = JStr CHATROOMS_TYPE \<and>
                  obj_get ''id'' (attributes chatroom) = JStr j \<and>
                  session chatroom =
                    (case chatboxes_get (JStr j) s of
                       None \<Rightarrow> [(''connection_status'', ROOMSTATUS_DISCONNECTED)]
                     | Some r0 \<Rightarrow> session r0) \<and>
                  messages chatroom =
                    (case chatboxes_get (JStr j) s of None \<Rightarrow> [] | Some r0 \<Rightarrow> messages r0) \<and>
                  trace s' =
                    trace s @
                    (if truthy (settings_get s ''auto_join_on_invite'') then []
                     else [Confirm (invitation_prompt message x_el s)]) @
                    [MaybeShow (JStr j)] @
                    (if obj_get ''connection_status'' (session chatroom) = ROOMSTATUS_DISCONNECTED
                     then [Rejoin (JStr j)] else []))"
    by (elim exE conjE) simp
next
  assume "truthy (settings_get s ''auto_join_on_invite'')"
  then show "onDirectMUCInvitation confirm message s = onDirectMUCInvitation (\<lambda>p. False) message s"
    by (rule invitation_auto)
next
  assume d: "\<not> truthy (settings_get s ''auto_join_on_invite'') \<and>
      \<not> confirm (invitation_prompt message x_el s)"
  with invitation_decline [where confirm = confirm and s = s, OF x]
  show "onDirectMUCInvitation confirm message s =
          (Inr (), s\<lparr>trace := trace s @ [Confirm (invitation_prompt message x_el s)]\<rparr>)"
    by (simp add: emit_def)
  then show "chatboxes (snd (onDirectMUCInvitation confirm message s)) = chatboxes s"
    by simp
qed


theorem onDirectMUCInvitation_accept_decline_witness:
  "(case onDirectMUCInvitation (\<lambda>p. True) invitation stale_session of
      (outcome, s') \<Rightarrow>
        outcome = Inr () \<and>
        (case chatboxes_get (JStr ''orchard@conf.example'') s' of
           None \<Rightarrow> False
         | Some chatroom \<Rightarrow>
             obj_get ''password'' (attributes chatroom) = JStr ''secret'' \<and>
             trace s' =
               [Confirm (InvitePrompt (JStr ''juliet@capulet.lit'') (JStr ''orchard@conf.example'')),
                MaybeShow (JStr ''orchard@conf.example''),
                Rejoin (JStr ''orchard@conf.example'')])) \<and>
   onDirectMUCInvitation (\<lambda>p. False) invitation stale_session =
     (Inr (),
      stale_session\<lparr>trace :=
        [Confirm (InvitePrompt (JStr ''juliet@capulet.lit'') (JStr ''orchard@conf.example''))]\<rparr>)"
proof -
  have x: "rev (sizzle ''x'' NS_CONFERENCE invitation) = invitation_x # []"
    by (simp add: invitation_def invitation_x_def sizzle_def getAttribute_def
          NS_CONFERENCE_def)
  have j: "getAttribute invitation_x ''jid'' = Some ''orchard@conf.example''"
    by (simp add: invitation_x_def getAttribute_def)
  have pw: "js_of_attr (getAttribute invitation_x ''password'') = JStr ''secret''"
    by (simp add: invitation_x_def getAttribute_def js_of_attr_def)
  have auto: "\<not> truthy (settings_get stale_session ''auto_join_on_invite'')"
    by (simp add: stale_session_def empty_converse_def settings_get_def obj_get_def)
  have p: "invitation_prompt invitation invitation_x stale_session =
             InvitePrompt (JStr ''juliet@capulet.lit'') (JStr ''orchard@conf.example'')"
    by (simp add: invitation_prompt_def invitation_def invitation_x_def stale_session_def
          empty_converse_def getAttribute_def js_of_attr_def getBareJidFromJid_def
          roster_get_def)
  have r0: "chatboxes_get (JStr ''orchard@conf.example'') stale_session =
              Some (mk_chatbox ''orchard@conf.example'' CHATROOMS_TYPE ROOMSTATUS_DISCONNECTED)"
    by (simp add: stale_session_def empty_converse_def mk_chatbox_def chatboxes_get_def
          obj_get_def)
  have se: "obj_get ''connection_status''
              (session (mk_chatbox ''orchard@conf.example'' CHATROOMS_TYPE ROOMSTATUS_DISCONNECTED)) =
            ROOMSTATUS_DISCONNECTED"
    by (simp add: mk_chatbox_def obj_get_def)
  have tr: "trace stale_session = []"
    by (simp add: stale_session_def empty_converse_def)
  note t1 = onDirectMUCInvitation_accept_decline
              [where confirm = "\<lambda>p. True" and s = stale_session, OF x j]
  note t2 = onDirectMUCInvitation_accept_decline
              [where confirm = "\<lambda>p. False" and s = stale_session, OF x j]
  from t1 have a: "case onDirectMUCInvitation (\<lambda>p. True) invitation stale_session of
      (outcome, s') \<Rightarrow>
        outcome = Inr () \<and>
        (case chatboxes_get (JStr ''orchard@conf.example'') s' of
           None \<Rightarrow> False
         | Some chatroom \<Rightarrow>
             obj_get ''password'' (attributes chatroom) = JStr ''secret'' \<and>
             trace s' =
               [Confirm (InvitePrompt (JStr ''juliet@capulet.lit'') (JStr ''orchard@conf.example'')),
                MaybeShow (JStr ''orchard@conf.example''),
                Rejoin (JStr ''orchard@conf.example'')])"
    using auto se unfolding pw p r0 tr
    by (auto split: prod.splits option.splits)
  from t2 auto have b: "onDirectMUCInvitation (\<lambda>p. False) invitation stale_session =
     (Inr (),
      stale_session\<lparr>trace :=
        [Confirm (InvitePrompt (JStr ''juliet@capulet.lit'') (JStr ''orchard@conf.example''))]\<rparr>)"
    unfolding p tr by simp
  from a b show ?thesis by blast
qed


section \<open>A notification that cannot be decoded\<close>

text \<open>
  Claim C6, on the code. A headline notification from a room of the directory, with a
  new id and a payload on which \<^verbatim>\<open>getMEPActivities\<close> throws: the promise of
  \<^verbatim>\<open>handleMEPNotification\<close> rejects, and since \<^verbatim>\<open>checkIfMEP\<close> does not await it, its
  \<^verbatim>\<open>catch\<close> clause does not run. Nothing is logged with \<^verbatim>\<open>log.error\<close>; the rejection is
  left unhandled. The handler does answer true and both its registrations stay; no
  stanza makes the \<^verbatim>\<open>try\<close> block throw; and each of the three stanza handlers of the
  module answers true on every stanza.
\<close>


theorem checkIfMEP_decode_failure_not_caught:
  "checkIfMEP decode_fails (mep_stanza ''orchard@conf.example'' ''headline'') room_session =
     (True,
      room_session\<lparr>trace := [UnhandledRejection (TypeError ''activities is null'')]\<rparr>) \<and>
   filter (\<lambda>e. case e of LogError m \<Rightarrow> True | _ \<Rightarrow> False)
     (trace (snd (checkIfMEP decode_fails (mep_stanza ''orchard@conf.example'' ''headline'')
                    room_session))) = [] \<and>
   handlers (deliver decode_fails (\<lambda>p. False) (mep_stanza ''orchard@conf.example'' ''headline'')
               (registerPEPPushHandler room_session)) =
     handlers (registerPEPPushHandler room_session) \<and>
   (\<forall>dec st s. fst (checkIfMEP_try dec st s) = None) \<and>
   (\<forall>dec confirm h st s. fst (run_handler dec confirm h st s) = True)"
proof -
  have a: "checkIfMEP decode_fails (mep_stanza ''orchard@conf.example'' ''headline'') room_session =
     (True,
      room_session\<lparr>trace := [UnhandledRejection (TypeError ''activities is null'')]\<rparr>)"
    by (simp add: checkIfMEP_def checkIfMEP_try_def unawaited_def handleMEPNotification_def
          Let_def room_session_def empty_converse_def mk_chatbox_def mep_stanza_def
          decode_fails_def chatboxes_get_def getAttribute_def js_of_attr_def obj_get_def
          isSameBareJID_def getBareJidFromJid_def sizzle_def NS_PUBSUB_def
          findWhere_msgid_def rooms_get_def update_room_def emit_def)
  have b: "filter (\<lambda>e. case e of LogError m \<Rightarrow> True | _ \<Rightarrow> False)
     (trace (snd (checkIfMEP decode_fails (mep_stanza ''orchard@conf.example'' ''headline'')
                    room_session))) = []"
    unfolding a by simp
  have c: "handlers (deliver decode_fails (\<lambda>p. False) (mep_stanza ''orchard@conf.example'' ''headline'')
               (registerPEPPushHandler room_session)) =
     handlers (registerPEPPushHandler room_session)"
    by (simp add: deliver_def registerPEPPushHandler_def addHandler_def handler_matches_def
          checkIfMEP_def checkIfMEP_try_def unawaited_def handleMEPNotification_def Let_def
          room_session_def empty_converse_def mk_chatbox_def mep_stanza_def decode_fails_def
          chatboxes_get_def getAttribute_def js_of_attr_def obj_get_def isSameBareJID_def
          getBareJidFromJid_def sizzle_def NS_PUBSUB_def findWhere_msgid_def rooms_get_def
          update_room_def emit_def split: prod.splits)
  from a b c checkIfMEP_try_never_throws run_handler_keeps show ?thesis by blast
qed


section \<open>Notifications for unknown rooms\<close>

text \<open>
  A headline notification from a JID that has no room in the directory: afterwards the
  directory still has no room under that JID, so the lookup created none. And a
  notification from the user's own bare JID, which has no room either, is dropped
  without a log line.
\<close>

theorem MEP_lookup_creates_no_room_counterexample:
  "chatboxes_get (JStr ''garden@conf.example'') room_session = None \<and>
   chatboxes_get (JStr ''garden@conf.example'')
     (snd (checkIfMEP decode_one (mep_stanza ''garden@conf.example'' ''headline'') room_session)) =
     None \<and>
   chatboxes (snd (checkIfMEP decode_one (mep_stanza ''garden@conf.example'' ''headline'')
                     room_session)) =
     chatboxes room_session \<and>
   chatboxes_get (JStr ''romeo@montague.lit'') room_session = None \<and>
   checkIfMEP decode_one (mep_stanza ''romeo@montague.lit'' ''headline'') room_session =
     (True, room_session)"
  by (simp add: checkIfMEP_def checkIfMEP_try_def unawaited_def handleMEPNotification_def
        Let_def room_session_def empty_converse_def mk_chatbox_def mep_stanza_def
        chatboxes_get_def getAttribute_def js_of_attr_def obj_get_def isSameBareJID_def
        getBareJidFromJid_def sizzle_def NS_PUBSUB_def rooms_get_def emit_def)

text \<open>
  Claim C7, amended. A room notification that is not the user's own and whose from-JID
  resolves to no room is logged with a warning and dropped. The room is only looked up
  (\<^verbatim>\<open>api.rooms.get(from)\<close>, without the create flag): none is created, and the directory
  has no room under that JID afterwards either. The promise of
  \<^verbatim>\<open>handleMEPNotification\<close> fulfils and the handler answers true; the directory and its
  message logs are as before, and the trace gains the warning and nothing else (no
  event, no rejection).
\<close>

theorem MEP_unknown_room_dropped:
  assumes not_self: "\<not> isSameBareJID (getAttribute st ''from'') (bare_jid s)"
    and no_room: "fst (rooms_get (js_of_attr (getAttribute st ''from'')) [] False s) = None"
  shows
    "handleMEPNotification dec st s =
       (Inr (),
        s\<lparr>trace := trace s @
           [LogWarn (''Received a MEP message for a non-existent room: '' @
                     template_str (getAttribute st ''from''))]\<rparr>) \<and>
     checkIfMEP dec st s =
       (True,
        if sizzle ''event'' (NS_PUBSUB @ ''#event'') st \<noteq> []
        then s\<lparr>trace := trace s @
               [LogWarn (''Received a MEP message for a non-existent room: '' @
                         template_str (getAttribute st ''from''))]\<rparr>
        else s) \<and>
     chatboxes (snd (checkIfMEP dec st s)) = chatboxes s \<and>
     chatboxes_get (js_of_attr (getAttribute st ''from'')) (snd (checkIfMEP dec st s)) = None \<and>
     filter (\<lambda>e. case e of LogWarn m \<Rightarrow> False | _ \<Rightarrow> True) (trace (snd (checkIfMEP dec st s))) =
       filter (\<lambda>e. case e of LogWarn m \<Rightarrow> False | _ \<Rightarrow> True) (trace s)"
proof -
  have h: "handleMEPNotification dec st s =
       (Inr (),
        s\<lparr>trace := trace s @
           [LogWarn (''Received a MEP message for a non-existent room: '' @
                     template_str (getAttribute st ''from''))]\<rparr>)"
    using not_self rooms_get_lookup_fst_None [OF no_room]
    by (simp add: handleMEPNotification_def Let_def emit_def)
  have n: "chatboxes_get (js_of_attr (getAttribute st ''from'')) s = None"
    using no_room
    by (cases "chatboxes_get (js_of_attr (getAttribute st ''from'')) s")
       (simp_all add: rooms_get_def Let_def)
  have c: "checkIfMEP dec st s =
       (True,
        if sizzle ''event'' (NS_PUBSUB @ ''#event'') st \<noteq> []
        then s\<lparr>trace := trace s @
               [LogWarn (''Received a MEP message for a non-existent room: '' @
                         template_str (getAttribute st ''from''))]\<rparr>
        else s)"
    using h by (simp add: checkIfMEP_def checkIfMEP_try_def unawaited_def)
  have k: "chatboxes (snd (checkIfMEP dec st s)) = chatboxes s"
    unfolding c by simp
  have g: "chatboxes_get (js_of_attr (getAttribute st ''from'')) (snd (checkIfMEP dec st s)) = None"
    using n k by (auto simp: chatboxes_get_def split: if_splits)
  have f: "filter (\<lambda>e. case e of LogWarn m \<Rightarrow> False | _ \<Rightarrow> True)
             (trace (snd (checkIfMEP dec st s))) =
           filter (\<lambda>e. case e of LogWarn m \<Rightarrow> False | _ \<Rightarrow> True) (trace s)"
    unfolding c by simp
  from h c k g f show ?thesis by (intro conjI)
qed


theorem MEP_unknown_room_dropped_witness:
  "checkIfMEP decode_one (mep_stanza ''garden@conf.example'' ''headline'') room_session =
     (True,
      room_session\<lparr>trace :=
        [LogWarn ''Received a MEP message for a non-existent room: garden@conf.example'']\<rparr>)"
proof -
  let ?st = "mep_stanza ''garden@conf.example'' ''headline''"
  have not_self: "\<not> isSameBareJID (getAttribute ?st ''from'') (bare_jid room_session)"
    by (simp add: room_session_def empty_converse_def mep_stanza_def getAttribute_def
          isSameBareJID_def getBareJidFromJid_def)
  have no_room: "fst (rooms_get (js_of_attr (getAttribute ?st ''from'')) [] False room_session) = None"
    by (simp add: room_session_def empty_converse_def mk_chatbox_def mep_stanza_def
          getAttribute_def js_of_attr_def rooms_get_def chatboxes_get_def obj_get_def)
  have event: "sizzle ''event'' (NS_PUBSUB @ ''#event'') ?st \<noteq> []"
    by (simp add: mep_stanza_def sizzle_def getAttribute_def NS_PUBSUB_def)
  have w: "trace room_session @
           [LogWarn (''Received a MEP message for a non-existent room: '' @
                     template_str (getAttribute ?st ''from''))] =
           [LogWarn ''Received a MEP message for a non-existent room: garden@conf.example'']"
    by (simp add: room_session_def empty_converse_def mep_stanza_def getAttribute_def
          template_str_def)
  from MEP_unknown_room_dropped [of ?st room_session decode_one, OF not_self no_room] event
  show ?thesis
    unfolding w by simp
qed


section \<open>The default nickname before the status exists\<close>

text \<open>
  Claim C8. Called before the status model exists, \<^verbatim>\<open>getDefaultMUCNickname\<close> raises its
  error to the caller and leaves the state as it was; once the status model exists it
  raises nothing.
\<close>


theorem getDefaultMUCNickname_before_status:
  "(xmppstatus s = None \<longrightarrow>
      getDefaultMUCNickname unescapeNode s = (Inl (Error nickname_too_early), s)) \<and>
   (\<forall>nick. xmppstatus s = Some nick \<longrightarrow>
      (\<exists>v. getDefaultMUCNickname unescapeNode s = (Inr v, s)))"
  by (simp add: getDefaultMUCNickname_def)

theorem getDefaultMUCNickname_before_status_witness:
  "getDefaultMUCNickname (\<lambda>n. n) empty_converse =
     (Inl (Error nickname_too_early), empty_converse) \<and>
   (\<exists>v. getDefaultMUCNickname (\<lambda>n. n) (empty_converse\<lparr>xmppstatus := Some (JStr ''romeo'')\<rparr>) =
          (Inr v, empty_converse\<lparr>xmppstatus := Some (JStr ''romeo'')\<rparr>))"
proof -
  have n: "xmppstatus empty_converse = None"
    by (simp add: empty_converse_def)
  have m: "xmppstatus (empty_converse\<lparr>xmppstatus := Some (JStr ''romeo'')\<rparr>) = Some (JStr ''romeo'')"
    by simp
  from getDefaultMUCNickname_before_status [of empty_converse "\<lambda>n. n"] n
  have a: "getDefaultMUCNickname (\<lambda>n. n) empty_converse =
             (Inl (Error nickname_too_early), empty_converse)"
    by blast
  from getDefaultMUCNickname_before_status
         [of "empty_converse\<lparr>xmppstatus := Some (JStr ''romeo'')\<rparr>" "\<lambda>n. n"] m
  have b: "\<exists>v. getDefaultMUCNickname (\<lambda>n. n) (empty_converse\<lparr>xmppstatus := Some (JStr ''romeo'')\<rparr>) =
          (Inr v, empty_converse\<lparr>xmppstatus := Some (JStr ''romeo'')\<rparr>)"
    by blast
  from a b show ?thesis by blast
qed


section \<open>The duplicate-room guard of auto-join\<close>

text \<open>
  Claim C9. In \<^verbatim>\<open>autoJoinRooms\<close> a string entry issues no \<^verbatim>\<open>api.rooms.open\<close> call when a
  chat box with that JID exists, and issues one when none exists; an object entry always
  issues the call, with its \<^verbatim>\<open>jid\<close> and a copy of itself as settings, whatever the
  directory holds. For the whole setting: every object entry's call is in the trace
  afterwards, and the one-argument call for a JID that has a chat box is not (unless it
  was there before).
\<close>


theorem autoJoinRooms_guard_only_for_strings:
  "(chatboxes_where_jid jid s \<noteq> [] \<longrightarrow> autoJoinEntry ro (JStr jid) s = (Fulfils, s)) \<and>
   (chatboxes_where_jid jid s = [] \<longrightarrow>
      autoJoinEntry ro (JStr jid) s =
        (ro [JStr jid], s\<lparr>trace := trace s @ [RoomsOpen [JStr jid]]\<rparr>)) \<and>
   autoJoinEntry ro (JObj kvs) s =
     (ro [obj_get ''jid'' kvs, JObj kvs],
      s\<lparr>trace := trace s @ [RoomsOpen [obj_get ''jid'' kvs, JObj kvs]]\<rparr>) \<and>
   (\<forall>entries. settings_get s ''auto_join_rooms'' = JArr entries \<longrightarrow>
      (JObj kvs \<in> set entries \<longrightarrow>
         RoomsOpen [obj_get ''jid'' kvs, JObj kvs] \<in> set (trace (snd (autoJoinRooms ro s)))) \<and>
      (chatboxes_where_jid jid s \<noteq> [] \<and> RoomsOpen [JStr jid] \<notin> set (trace s) \<longrightarrow>
         RoomsOpen [JStr jid] \<notin> set (trace (snd (autoJoinRooms ro s)))))"
proof (intro conjI allI impI)
  assume "chatboxes_where_jid jid s \<noteq> []"
  then show "autoJoinEntry ro (JStr jid) s = (Fulfils, s)"
    by (simp add: autoJoinEntry_def)
next
  assume "chatboxes_where_jid jid s = []"
  then show "autoJoinEntry ro (JStr jid) s =
        (ro [JStr jid], s\<lparr>trace := trace s @ [RoomsOpen [JStr jid]]\<rparr>)"
    by (simp add: autoJoinEntry_def emit_def)
next
  show "autoJoinEntry ro (JObj kvs) s =
     (ro [obj_get ''jid'' kvs, JObj kvs],
      s\<lparr>trace := trace s @ [RoomsOpen [obj_get ''jid'' kvs, JObj kvs]]\<rparr>)"
    by (simp add: autoJoinEntry_def emit_def Let_def)
next
  fix entries
  assume e: "settings_get s ''auto_join_rooms'' = JArr entries" and "JObj kvs \<in> set entries"
  from object_entry_opened [OF this(2), of ro s] trace_autoJoinRooms [OF e, of ro]
  show "RoomsOpen [obj_get ''jid'' kvs, JObj kvs] \<in> set (trace (snd (autoJoinRooms ro s)))"
    by simp
next
  fix entries
  assume e: "settings_get s ''auto_join_rooms'' = JArr entries"
    and g: "chatboxes_where_jid jid s \<noteq> [] \<and> RoomsOpen [JStr jid] \<notin> set (trace s)"
  from g have "RoomsOpen [JStr jid] \<notin> set (trace (snd (mapEntries ro entries s)))"
    by (intro string_entry_skipped) simp_all
  with trace_autoJoinRooms [OF e, of ro]
  show "RoomsOpen [JStr jid] \<notin> set (trace (snd (autoJoinRooms ro s)))"
    by simp
qed

theorem autoJoinRooms_guard_only_for_strings_witness:
  "autoJoinEntry (\<lambda>args. Fulfils) (JStr ''room1@conf.example'') twice_session =
     (Fulfils, twice_session) \<and>
   RoomsOpen [JStr ''room1@conf.example'', JObj [(''jid'', JStr ''room1@conf.example'')]]
     \<in> set (trace (snd (autoJoinRooms (\<lambda>args. Fulfils) twice_session))) \<and>
   RoomsOpen [JStr ''room1@conf.example'']
     \<notin> set (trace (snd (autoJoinRooms (\<lambda>args. Fulfils) twice_session)))"
proof -
  let ?kvs = "[(''jid'', JStr ''room1@conf.example'')]"
  let ?es = "[JStr ''room1@conf.example'', JObj ?kvs]"
  have g: "chatboxes_where_jid ''room1@conf.example'' twice_session \<noteq> []"
    by (simp add: chatboxes_where_jid_def twice_session_def empty_converse_def
          mk_chatbox_def obj_get_def)
  have e: "settings_get twice_session ''auto_join_rooms'' = JArr ?es"
    by (simp add: twice_session_def empty_converse_def settings_get_def obj_get_def)
  have m: "JObj ?kvs \<in> set ?es" by simp
  have n: "RoomsOpen [JStr ''room1@conf.example''] \<notin> set (trace twice_session)"
    by (simp add: twice_session_def empty_converse_def)
  have k: "obj_get ''jid'' ?kvs = JStr ''room1@conf.example''"
    by (simp add: obj_get_def)
  note t = autoJoinRooms_guard_only_for_strings
             [of "''room1@conf.example''" twice_session "\<lambda>args. Fulfils" ?kvs]
  from t g have 1: "autoJoinEntry (\<lambda>args. Fulfils) (JStr ''room1@conf.example'') twice_session =
     (Fulfils, twice_session)" by blast
  from t e m have 2: "RoomsOpen [obj_get ''jid'' ?kvs, JObj ?kvs]
     \<in> set (trace (snd (autoJoinRooms (\<lambda>args. Fulfils) twice_session)))" by blast
  from t e g n have 3: "RoomsOpen [JStr ''room1@conf.example'']
     \<notin> set (trace (snd (autoJoinRooms (\<lambda>args. Fulfils) twice_session)))" by blast
  from 1 2 3 show ?thesis unfolding k by blast
qed


section \<open>Opening a room forces its type\<close>

text \<open>
  Claim C10. For every JID and every settings object, \<^verbatim>\<open>openChatRoom\<close> overwrites the
  \<^verbatim>\<open>type\<close> of the caller's settings with \<^verbatim>\<open>CHATROOMS_TYPE\<close> and their \<^verbatim>\<open>id\<close> with the JID
  (the caller's object is changed in place, its other properties are kept), and only
  then gets or creates the room, with those settings. The room it answers therefore has
  type \<^verbatim>\<open>CHATROOMS_TYPE\<close> and the JID as id, whatever type the caller passed, and is the
  room the directory holds under that JID. An object's property names are distinct.
\<close>


theorem openChatRoom_forces_type:
  assumes d: "distinct (map fst settings0)"
  shows
    "(case openChatRoom jid settings0 s of
        (result, settings', s') \<Rightarrow>
          settings' = obj_set ''id'' jid (obj_set ''type'' (JStr CHATROOMS_TYPE) settings0) \<and>
          obj_get ''type'' settings' = JStr CHATROOMS_TYPE \<and>
          obj_get ''id'' settings' = jid \<and>
          (\<forall>k. k \<noteq> ''id'' \<and> k \<noteq> ''type'' \<longrightarrow> obj_get k settings' = obj_get k settings0) \<and>
          (case rooms_get jid settings' True s of
             (fetched, s1) \<Rightarrow>
               (case result of
                  Inl e \<Rightarrow> False
                | Inr room \<Rightarrow>
                    fetched = Some room \<and>
                    s' = emit (MaybeShow (obj_get ''id'' (attributes room))) s1 \<and>
                    obj_get ''type'' (attributes room) = JStr CHATROOMS_TYPE \<and>
                    obj_get ''id'' (attributes room) = jid \<and>
                    (jid \<noteq> JNull \<and> jid \<noteq> JUndefined \<longrightarrow> chatboxes_get jid s' = Some room))))"
proof -
  let ?st = "obj_set ''id'' jid (obj_set ''type'' (JStr CHATROOMS_TYPE) settings0)"
  note f = settings2_facts [where jid = jid and ty = "JStr CHATROOMS_TYPE", OF d]
  from rooms_get_create_attrs [OF f(1), of jid s]
  obtain room s1 where r: "rooms_get jid ?st True s = (Some room, s1)"
    and a: "\<forall>k v. map_of ?st k = Some v \<longrightarrow> obj_get k (attributes room) = v"
    by blast
  from a f(2,3) have t: "obj_get ''type'' (attributes room) = JStr CHATROOMS_TYPE"
    and i: "obj_get ''id'' (attributes room) = jid" by blast+
  have dir: "chatboxes_get jid (emit (MaybeShow jid) s1) = Some room"
    if "jid \<noteq> JNull \<and> jid \<noteq> JUndefined"
    using rooms_get_create_directory [OF _ _ f(1,2), of s] that r by auto
  show ?thesis
    using r t i dir
    by (simp add: openChatRoom_def Let_def obj_get_obj_set)
qed


theorem openChatRoom_forces_type_witness:
  "(case openChatRoom (JStr ''orchard@conf.example'')
           [(''type'', JStr ''chatbox''), (''nick'', JStr ''romeo'')] empty_converse of
      (result, settings', s') \<Rightarrow>
        settings' =
          [(''type'', JStr CHATROOMS_TYPE), (''nick'', JStr ''romeo''),
           (''id'', JStr ''orchard@conf.example'')] \<and>
        (case result of
           Inl e \<Rightarrow> False
         | Inr room \<Rightarrow>
             obj_get ''type'' (attributes room) = JStr CHATROOMS_TYPE \<and>
             chatboxes_get (JStr ''orchard@conf.example'') s' = Some room))"
proof -
  have d: "distinct (map fst [(''type'', JStr ''chatbox''), (''nick'', JStr ''romeo'')])"
    by simp
  have st: "obj_set ''id'' (JStr ''orchard@conf.example'')
              (obj_set ''type'' (JStr CHATROOMS_TYPE)
                 [(''type'', JStr ''chatbox''), (''nick'', JStr ''romeo'')]) =
            [(''type'', JStr CHATROOMS_TYPE), (''nick'', JStr ''romeo''),
             (''id'', JStr ''orchard@conf.example'')]"
    by simp
  from openChatRoom_forces_type
         [where jid = "JStr ''orchard@conf.example''" and s = empty_converse, OF d]
  show ?thesis
    unfolding st by (auto split: prod.splits sum.splits)
qed


end
